theory Spec2Isabelle
  imports Complex_Main "HOL-Library.AList" "HOL-Library.Multiset" "HOL-Library.Sublist"
begin

text \<open>
  A model of the search and collection core of the market-research services: the
  credential rotation, the provider adapters and the run of
  \<^verbatim>\<open>RealSearchOrchestrator\<close>, the quality score of \<^verbatim>\<open>AlibabaWebSailorAgent\<close>,
  the screenshot capture of \<^verbatim>\<open>VisualContentCapture\<close> and the session collector
  \<^verbatim>\<open>MassiveDataCollector\<close>. Every function is translated from its Python source,
  which is quoted next to it. Values are dynamically typed, exceptions are results, the
  objects' fields are passed as state, and every answer of the network, the browser,
  the file system and of modules whose code is elsewhere is a parameter. The
  definitions come first, the properties after them.
\<close>

section \<open>Python values and exceptions\<close>

text \<open>
  The services are Python. Exceptions are values: a class and the message that
  \<^verbatim>\<open>str(e)\<close> gives. Messages are written in ASCII.
\<close>

datatype exn_class =
  ImportError | NameError | AttributeError | TypeError | KeyError | IndexError
  | ValueError | FileNotFoundError | TimeoutException | OtherException

datatype py_error = Exn (exn_class: exn_class) (str_e: string)

text \<open>
  JSON-like values. A dict is an association list in insertion order (a well-formed one
  has distinct keys). A float is given by the rational number it stands for; infinities
  and NaN are not represented.
\<close>

datatype pyval =
  PNone | PBool bool | PInt int | PFloat rat | PStr string | PList "pyval list"
  | PDict "(string \<times> pyval) list"

type_synonym pydict = "(string \<times> pyval) list"

section \<open>Credential pool (\<^verbatim>\<open>real_search_orchestrator.py\<close>)\<close>

text \<open>
  The fields of \<^verbatim>\<open>RealSearchOrchestrator\<close> that the rotation touches:
  \<^verbatim>\<open>api_keys\<close>, \<^verbatim>\<open>key_indices\<close> and
  \<^verbatim>\<open>session_stats['api_rotations']\<close>. The cursor is only ever assigned
  \<^verbatim>\<open>0\<close> (by the constructor) and \<^verbatim>\<open>(current_index + 1) % len(keys)\<close>,
  so it is a natural number.
\<close>

record orchestrator =
  api_keys :: "string \<rightharpoonup> string list"
  key_indices :: "string \<rightharpoonup> nat"
  api_rotations :: "(string \<times> nat) list"
  stat_screenshots_captured :: nat

text \<open>
  \<^verbatim>\<open>self.key_indices = {provider: 0 for provider in self.api_keys.keys()}\<close>
\<close>

definition init_orchestrator :: "(string \<rightharpoonup> string list) \<Rightarrow> orchestrator" where
  "init_orchestrator ks =
     \<lparr>api_keys = ks,
      key_indices = (\<lambda>p. if ks p = None then None else Some 0),
      api_rotations = [],
      stat_screenshots_captured = 0\<rparr>"

text \<open>
  \<^verbatim>\<open>
  def get_next_api_key(self, provider):
      if provider not in self.api_keys or not self.api_keys[provider]:
          return None
      keys = self.api_keys[provider]
      current_index = self.key_indices[provider]
      key = keys[current_index]
      self.key_indices[provider] = (current_index + 1) % len(keys)
      if provider not in self.session_stats['api_rotations']:
          self.session_stats['api_rotations'][provider] = 0
      self.session_stats['api_rotations'][provider] += 1
      return key
  \<close>
\<close>

definition bump_rotation :: "string \<Rightarrow> (string \<times> nat) list \<Rightarrow> (string \<times> nat) list" where
  "bump_rotation provider rot =
     (case map_of rot provider of
        None \<Rightarrow> AList.update provider 1 rot
      | Some c \<Rightarrow> AList.update provider (c + 1) rot)"

definition get_next_api_key ::
  "orchestrator \<Rightarrow> string \<Rightarrow> py_error + (string option \<times> orchestrator)" where
  "get_next_api_key s provider =
     (case api_keys s provider of
        None \<Rightarrow> Inr (None, s)
      | Some keys \<Rightarrow>
          if keys = [] then Inr (None, s)
          else (case key_indices s provider of
                  None \<Rightarrow> Inl (Exn KeyError provider)
                | Some current_index \<Rightarrow>
                    if current_index < length keys then
                      Inr (Some (keys ! current_index),
                           s\<lparr>key_indices := (key_indices s)(provider \<mapsto> (current_index + 1) mod length keys),
                             api_rotations := bump_rotation provider (api_rotations s)\<rparr>)
                    else Inl (Exn IndexError ''list index out of range'')))"


section \<open>Python operations on values\<close>

text \<open>Truth value of an object, as \<^verbatim>\<open>if x:\<close> and \<^verbatim>\<open>not x\<close> test it.\<close>

fun truthy :: "pyval \<Rightarrow> bool" where
  "truthy PNone = False"
| "truthy (PBool b) = b"
| "truthy (PInt i) = (i \<noteq> 0)"
| "truthy (PFloat r) = (r \<noteq> 0)"
| "truthy (PStr s) = (s \<noteq> [])"
| "truthy (PList xs) = (xs \<noteq> [])"
| "truthy (PDict d) = (d \<noteq> [])"

text \<open>\<^verbatim>\<open>d.get(k, default)\<close> and \<^verbatim>\<open>d[k] = v\<close> on a dict.\<close>

definition dict_get :: "pydict \<Rightarrow> string \<Rightarrow> pyval \<Rightarrow> pyval" where
  "dict_get d k dflt = (case map_of d k of None \<Rightarrow> dflt | Some v \<Rightarrow> v)"


text \<open>
  \<^verbatim>\<open>x.get(k, default)\<close> on any value: only a dict has the method.
\<close>

definition py_get :: "pyval \<Rightarrow> string \<Rightarrow> pyval \<Rightarrow> py_error + pyval" where
  "py_get x k dflt =
     (case x of
        PDict d \<Rightarrow> Inr (dict_get d k dflt)
      | _ \<Rightarrow> Inl (Exn AttributeError ''object has no attribute get''))"

text \<open>\<^verbatim>\<open>x[k]\<close> with a string key.\<close>

definition py_subscript :: "pyval \<Rightarrow> string \<Rightarrow> py_error + pyval" where
  "py_subscript x k =
     (case x of
        PDict d \<Rightarrow> (case map_of d k of None \<Rightarrow> Inl (Exn KeyError k) | Some v \<Rightarrow> Inr v)
      | PNone \<Rightarrow> Inl (Exn TypeError ''object is not subscriptable'')
      | PBool b \<Rightarrow> Inl (Exn TypeError ''object is not subscriptable'')
      | PInt i \<Rightarrow> Inl (Exn TypeError ''object is not subscriptable'')
      | PFloat r \<Rightarrow> Inl (Exn TypeError ''object is not subscriptable'')
      | PStr s \<Rightarrow> Inl (Exn TypeError ''string indices must be integers'')
      | PList xs \<Rightarrow> Inl (Exn TypeError ''list indices must be integers''))"

text \<open>
  The elements a \<^verbatim>\<open>for\<close> loop (or \<^verbatim>\<open>list.extend\<close>) takes from a value: the
  items of a list, the keys of a dict, the characters of a string.
\<close>

definition py_iter :: "pyval \<Rightarrow> py_error + pyval list" where
  "py_iter x =
     (case x of
        PList xs \<Rightarrow> Inr xs
      | PDict d \<Rightarrow> Inr (map (\<lambda>kv. PStr (fst kv)) d)
      | PStr s \<Rightarrow> Inr (map (\<lambda>c. PStr [c]) s)
      | _ \<Rightarrow> Inl (Exn TypeError ''object is not iterable''))"

text \<open>\<^verbatim>\<open>len(x)\<close>.\<close>

definition py_len :: "pyval \<Rightarrow> py_error + int" where
  "py_len x =
     (case x of
        PList xs \<Rightarrow> Inr (int (length xs))
      | PDict d \<Rightarrow> Inr (int (length d))
      | PStr s \<Rightarrow> Inr (int (length s))
      | _ \<Rightarrow> Inl (Exn TypeError ''object has no len''))"

text \<open>Lists and dicts cannot be members of a \<^verbatim>\<open>set\<close>.\<close>

definition py_hashable :: "pyval \<Rightarrow> bool" where
  "py_hashable x = (case x of PList xs \<Rightarrow> False | PDict d \<Rightarrow> False | _ \<Rightarrow> True)"

text \<open>
  The number a value is, if it is one: a \<^verbatim>\<open>bool\<close> is the integer 0 or 1.
  \<^verbatim>\<open>x >= n\<close> for an integer literal \<open>n\<close> compares numbers and raises
  \<^verbatim>\<open>TypeError\<close> on every other value.
\<close>

definition py_number :: "pyval \<Rightarrow> rat option" where
  "py_number x =
     (case x of
        PInt i \<Rightarrow> Some (of_int i)
      | PBool b \<Rightarrow> Some (if b then 1 else 0)
      | PFloat r \<Rightarrow> Some r
      | _ \<Rightarrow> None)"

definition py_ge :: "pyval \<Rightarrow> int \<Rightarrow> py_error + bool" where
  "py_ge x n =
     (case py_number x of
        Some r \<Rightarrow> Inr (of_int n \<le> r)
      | None \<Rightarrow> Inl (Exn TypeError ''>= not supported''))"

text \<open>
  Members of a \<^verbatim>\<open>set\<close> are compared with \<^verbatim>\<open>==\<close>, under which equal numbers
  of different types are one member.
\<close>

definition py_key :: "pyval \<Rightarrow> pyval" where
  "py_key x = (case py_number x of Some r \<Rightarrow> PFloat r | None \<Rightarrow> x)"

fun fold_err :: "('a \<Rightarrow> 'b \<Rightarrow> py_error + 'b) \<Rightarrow> 'a list \<Rightarrow> 'b \<Rightarrow> py_error + 'b" where
  "fold_err f [] acc = Inr acc"
| "fold_err f (x # xs) acc =
     (case f x acc of Inl e \<Rightarrow> Inl e | Inr acc' \<Rightarrow> fold_err f xs acc')"

text \<open>Running a function that may raise over a list: the first exception ends the loop.\<close>

fun map_err :: "('a \<Rightarrow> py_error + 'b) \<Rightarrow> 'a list \<Rightarrow> py_error + 'b list" where
  "map_err f [] = Inr []"
| "map_err f (x # xs) =
     (case f x of
        Inl e \<Rightarrow> Inl e
      | Inr y \<Rightarrow> (case map_err f xs of Inl e \<Rightarrow> Inl e | Inr ys \<Rightarrow> Inr (y # ys)))"

text \<open>
  Name lookup. A module's global namespace is the list of names its top level binds;
  a name that is neither there nor a builtin raises \<^verbatim>\<open>NameError\<close>.
  \<^verbatim>\<open>from m import n\<close> raises what executing \<open>m\<close> raises, and
  \<^verbatim>\<open>ImportError\<close> when \<open>m\<close> (a module, not a package) binds no \<open>n\<close>.
  \<^verbatim>\<open>obj.n\<close> raises \<^verbatim>\<open>AttributeError\<close> when neither the instance nor its
  class binds \<open>n\<close>.
\<close>

definition load_global :: "string list \<Rightarrow> string \<Rightarrow> py_error + unit" where
  "load_global module_globals name =
     (if name \<in> set module_globals then Inr ()
      else Inl (Exn NameError (''name is not defined: '' @ name)))"

definition import_from :: "py_error + unit \<Rightarrow> string list \<Rightarrow> string \<Rightarrow> py_error + unit" where
  "import_from executed module_globals name =
     (case executed of
        Inl e \<Rightarrow> Inl e
      | Inr u \<Rightarrow>
          if name \<in> set module_globals then Inr ()
          else Inl (Exn ImportError (''cannot import name '' @ name)))"

definition getattr :: "string list \<Rightarrow> string \<Rightarrow> py_error + unit" where
  "getattr attributes name =
     (if name \<in> set attributes then Inr ()
      else Inl (Exn AttributeError (''object has no attribute '' @ name)))"

section \<open>The world outside the program\<close>

text \<open>
  What an HTTP request gives back: the call raises (network, timeout), or there is a
  response with a status, whose \<^verbatim>\<open>json()\<close> and \<^verbatim>\<open>text()\<close> may raise too.
\<close>

datatype http_response =
  HttpResponse (status: int) (json_body: "py_error + pyval") (text_body: "py_error + string")

text \<open>
  Everything the services read from their environment is a field of \<open>world\<close>, so that
  a theorem about all worlds is a theorem about every answer of the network, of the
  standard library and of the collaborators whose code is elsewhere.
  \<^item> \<open>http url key\<close>: the answer to the request sent to \<open>url\<close> with credential \<open>key\<close>;
  \<^item> \<open>getenv\<close>: \<^verbatim>\<open>os.getenv\<close>;
  \<^item> \<open>quote_plus\<close>, \<open>py_str\<close>: \<^verbatim>\<open>urllib.parse.quote_plus\<close> and the builtin
    \<^verbatim>\<open>str\<close> on a value that is not a string;
  \<^item> \<open>urlparse_netloc\<close>: \<^verbatim>\<open>urllib.parse.urlparse(url).netloc\<close>, which raises
    \<^verbatim>\<open>ValueError\<close> on some malformed addresses;
  \<^item> \<open>str_lower\<close>: the method \<^verbatim>\<open>str.lower\<close>, which lowers every cased letter of
    Unicode;
  \<^item> \<open>findall_links\<close>, \<open>findall_urls\<close>: what \<^verbatim>\<open>re.findall\<close> gives for the two
    patterns of \<^verbatim>\<open>_extract_search_results_from_content\<close>;
  \<^item> \<open>websailor_executed\<close>, \<open>visual_capture_executed\<close>: the outcome of executing the
    modules \<^verbatim>\<open>services.alibaba_websailor\<close> and \<^verbatim>\<open>services.visual_content_capture\<close>
    on import (their own imports may fail);
  \<^item> \<open>websailor_enabled\<close>, \<open>websailor_research\<close>, \<open>capture_async\<close>: what the objects
    named \<^verbatim>\<open>alibaba_websailor\<close> and \<^verbatim>\<open>capture_screenshot_async\<close> would answer;
  \<^item> \<open>engine_analysis\<close>: \<^verbatim>\<open>PredictiveAnalyticsEngine.analyze_session_data\<close>;
  \<^item> \<open>salvar_etapa_ok\<close>, \<open>salvar_erro_ok\<close>: whether the helpers of
    \<^verbatim>\<open>services.auto_save_manager\<close> return or raise;
  \<^item> \<open>now\<close>, \<open>elapsed\<close>: \<^verbatim>\<open>datetime.now().isoformat()\<close> and the measured duration.
\<close>

record world =
  http :: "string \<Rightarrow> string \<Rightarrow> py_error + http_response"
  getenv :: "string \<Rightarrow> string option"
  quote_plus :: "string \<Rightarrow> string"
  py_str :: "pyval \<Rightarrow> string"
  urlparse_netloc :: "string \<Rightarrow> py_error + string"
  str_lower :: "string \<Rightarrow> string"
  findall_links :: "string \<Rightarrow> (string \<times> string) list"
  findall_urls :: "string \<Rightarrow> string list"
  websailor_executed :: "py_error + unit"
  websailor_enabled :: bool
  websailor_research :: "py_error + pyval"
  visual_capture_executed :: "py_error + unit"
  capture_async :: "pyval \<Rightarrow> string \<Rightarrow> py_error + pyval"
  engine_analysis :: "string \<Rightarrow> py_error + pyval"
  salvar_etapa_ok :: "py_error + unit"
  salvar_erro_ok :: "py_error + unit"
  now :: string
  elapsed :: pyval

text \<open>A value inside an f-string.\<close>

definition fstr :: "world \<Rightarrow> pyval \<Rightarrow> string" where
  "fstr w v = (case v of PStr s \<Rightarrow> s | _ \<Rightarrow> py_str w v)"

section \<open>Module namespaces, from the sources\<close>

text \<open>The names bound at the top level of \<^verbatim>\<open>real_search_orchestrator.py\<close>.\<close>

definition orchestrator_globals :: "string list" where
  "orchestrator_globals =
     [''os'', ''logging'', ''asyncio'', ''aiohttp'', ''time'', ''Dict'', ''List'', ''Any'',
      ''Optional'', ''datetime'', ''ThreadPoolExecutor'', ''quote_plus'', ''json'',
      ''predictive_analytics_service'', ''logger'', ''RealSearchOrchestrator'',
      ''real_search_orchestrator'']"

text \<open>The names bound at the top level of \<^verbatim>\<open>alibaba_websailor.py\<close>.\<close>

definition alibaba_websailor_globals :: "string list" where
  "alibaba_websailor_globals =
     [''os'', ''logging'', ''time'', ''requests'', ''json'', ''random'', ''Dict'', ''List'',
      ''Optional'', ''Any'', ''quote_plus'', ''urljoin'', ''urlparse'', ''BeautifulSoup'',
      ''datetime'', ''re'', ''ThreadPoolExecutor'', ''as_completed'', ''salvar_etapa'',
      ''salvar_erro'', ''salvar_trecho_pesquisa_web'', ''predictive_analytics_service'',
      ''visual_content_capture'', ''exa_client'', ''extract_content_with_exa'', ''HAS_EXA'',
      ''logger'', ''AlibabaWebSailorAgent'', ''alibaba_websailor_agent'']"

text \<open>The names bound at the top level of \<^verbatim>\<open>visual_content_capture.py\<close>.\<close>

definition visual_content_capture_globals :: "string list" where
  "visual_content_capture_globals =
     [''os'', ''logging'', ''time'', ''Dict'', ''Any'', ''datetime'', ''Path'', ''webdriver'',
      ''Options'', ''Service'', ''By'', ''WebDriverWait'', ''EC'', ''TimeoutException'',
      ''WebDriverException'', ''ChromeDriverManager'', ''logger'', ''VisualContentCapture'',
      ''visual_content_capture'']"

text \<open>
  The attributes of an instance of \<^verbatim>\<open>VisualContentCapture\<close>, besides those every
  object has: the three fields its constructor sets and the methods of the class. The
  class defines no \<^verbatim>\<open>__getattr__\<close>.
\<close>

definition VisualContentCapture_attributes :: "string list" where
  "VisualContentCapture_attributes =
     [''driver'', ''wait_timeout'', ''page_load_timeout'', ''__init__'', ''_setup_driver'',
      ''_create_session_directory'', ''capture_screenshot'', ''cleanup_old_screenshots'']"

section \<open>Provider adapters (\<^verbatim>\<open>real_search_orchestrator.py\<close>)\<close>

text \<open>The dict every adapter returns on failure.\<close>

definition failure :: "string \<Rightarrow> pydict" where
  "failure msg = [(''success'', PBool False), (''error'', PStr msg)]"

definition service_urls :: "string \<Rightarrow> string" where
  "service_urls provider =
     (if provider = ''FIRECRAWL'' then ''https://api.firecrawl.dev/v0/scrape''
      else if provider = ''JINA'' then ''https://r.jina.ai/''
      else if provider = ''GOOGLE'' then ''https://www.googleapis.com/customsearch/v1''
      else if provider = ''EXA'' then ''https://api.exa.ai/search''
      else if provider = ''SERPER'' then ''https://google.serper.dev/search''
      else if provider = ''YOUTUBE'' then ''https://www.googleapis.com/youtube/v3/search''
      else [])"

text \<open>
  \<^verbatim>\<open>
  def _extract_search_results_from_content(self, content, source):
      results = []
      links = re.findall(r'\[(.*?)\]\((https?://[\w\d\./\-]+)\)', content)
      for title, url in links:
          results.append({'title': title, 'url': url, 'snippet': '', 'source': source})
      if not results:
          urls = re.findall(r'https?://[\w\d\./\-]+', content)
          for url in urls:
              results.append({'title': f"Conteudo de {url}", 'url': url,
                  'snippet': content[:200] + "..." if len(content) > 200 else content,
                  'source': source})
      return results
  \<close>
  The name \<^verbatim>\<open>re\<close> is looked up in the module's globals when the first
  \<^verbatim>\<open>re.findall\<close> is evaluated.
\<close>

definition extract_search_results_from_content ::
  "world \<Rightarrow> pyval \<Rightarrow> string \<Rightarrow> py_error + pyval list" where
  "extract_search_results_from_content w content source =
     (case load_global orchestrator_globals ''re'' of
        Inl e \<Rightarrow> Inl e
      | Inr u \<Rightarrow>
          (case content of
             PStr c \<Rightarrow>
               (let results =
                      map (\<lambda>(title, url).
                             PDict [(''title'', PStr title), (''url'', PStr url),
                                    (''snippet'', PStr []), (''source'', PStr source)])
                          (findall_links w c)
                in if results \<noteq> [] then Inr results
                   else Inr (map (\<lambda>url.
                             PDict [(''title'', PStr (''Conteudo de '' @ url)), (''url'', PStr url),
                                    (''snippet'',
                                     PStr (if 200 < length c then take 200 c @ ''...'' else c)),
                                    (''source'', PStr source)])
                          (findall_urls w c)))
           | _ \<Rightarrow> Inl (Exn TypeError ''expected string or bytes-like object'')))"

text \<open>\<^verbatim>\<open>content[:2000]\<close>\<close>

definition slice_to :: "nat \<Rightarrow> pyval \<Rightarrow> py_error + pyval" where
  "slice_to n x =
     (case x of
        PStr s \<Rightarrow> Inr (PStr (take n s))
      | PList xs \<Rightarrow> Inr (PList (take n xs))
      | _ \<Rightarrow> Inl (Exn TypeError ''object is not subscriptable''))"

text \<open>
  In every adapter \<^verbatim>\<open>if not api_key\<close> holds for \<^verbatim>\<open>None\<close> and for the empty string.

  \<^verbatim>\<open>_search_firecrawl\<close>: the whole body is inside
  \<^verbatim>\<open>try: ... except Exception as e: return {'success': False, 'error': str(e)}\<close>.
  On status 200:
  \<^verbatim>\<open>
  data = await response.json()
  content = data.get('data', {}).get('markdown', '')
  results = self._extract_search_results_from_content(content, 'firecrawl')
  return {'success': True, 'provider': 'FIRECRAWL', 'results': results,
          'raw_content': content[:2000]}
  \<close>
\<close>

definition firecrawl_ok :: "world \<Rightarrow> http_response \<Rightarrow> py_error + pydict" where
  "firecrawl_ok w response =
     (case json_body response of
        Inl e \<Rightarrow> Inl e
      | Inr data \<Rightarrow>
          (case py_get data ''data'' (PDict []) of
             Inl e \<Rightarrow> Inl e
           | Inr d \<Rightarrow>
               (case py_get d ''markdown'' (PStr []) of
                  Inl e \<Rightarrow> Inl e
                | Inr content \<Rightarrow>
                    (case extract_search_results_from_content w content ''firecrawl'' of
                       Inl e \<Rightarrow> Inl e
                     | Inr results \<Rightarrow>
                         (case slice_to 2000 content of
                            Inl e \<Rightarrow> Inl e
                          | Inr raw \<Rightarrow>
                              Inr [(''success'', PBool True), (''provider'', PStr ''FIRECRAWL''),
                                   (''results'', PList results), (''raw_content'', raw)])))))"

definition search_firecrawl :: "world \<Rightarrow> orchestrator \<Rightarrow> string \<Rightarrow> pydict \<times> orchestrator" where
  "search_firecrawl w s query =
     (case get_next_api_key s ''FIRECRAWL'' of
        Inl e \<Rightarrow> (failure (str_e e), s)
      | Inr (None, s') \<Rightarrow> (failure ''Firecrawl API key nao disponivel'', s')
      | Inr (Some api_key, s') \<Rightarrow>
          if api_key = [] then (failure ''Firecrawl API key nao disponivel'', s')
          else
            (case http w (service_urls ''FIRECRAWL'') api_key of
               Inl e \<Rightarrow> (failure (str_e e), s')
             | Inr response \<Rightarrow>
                 if status response = 200 then
                   (case firecrawl_ok w response of
                      Inl e \<Rightarrow> (failure (str_e e), s')
                    | Inr r \<Rightarrow> (r, s'))
                 else
                   (case text_body response of
                      Inl e \<Rightarrow> (failure (str_e e), s')
                    | Inr error_text \<Rightarrow>
                        (failure (''HTTP '' @ fstr w (PInt (status response))), s'))))"

text \<open>
  \<^verbatim>\<open>_search_jina\<close>: three search pages are read through the reader service. The
  body of the loop is inside its own \<^verbatim>\<open>try: ... except Exception: continue\<close>, so a
  page that fails contributes nothing:
  \<^verbatim>\<open>
  if response.status == 200:
      content = await response.text()
      extracted_results = self._extract_search_results_from_content(content, 'jina')
      results.extend(extracted_results)
  \<close>
  The adapter returns \<^verbatim>\<open>results[:20]\<close>.
\<close>

definition jina_search_urls :: "world \<Rightarrow> string \<Rightarrow> string list" where
  "jina_search_urls w query =
     [''https://www.google.com/search?q='' @ quote_plus w query @ ''&hl=pt-BR'',
      ''https://www.bing.com/search?q='' @ quote_plus w query @ ''&cc=br'',
      ''https://search.yahoo.com/search?p='' @ quote_plus w query @ ''&ei=UTF-8'']"

definition jina_page :: "world \<Rightarrow> string \<Rightarrow> string \<Rightarrow> pyval list" where
  "jina_page w api_key search_url =
     (case http w (service_urls ''JINA'' @ search_url) api_key of
        Inl e \<Rightarrow> []
      | Inr response \<Rightarrow>
          if status response = 200 then
            (case text_body response of
               Inl e \<Rightarrow> []
             | Inr content \<Rightarrow>
                 (case extract_search_results_from_content w (PStr content) ''jina'' of
                    Inl e \<Rightarrow> []
                  | Inr extracted_results \<Rightarrow> extracted_results))
          else [])"

definition search_jina :: "world \<Rightarrow> orchestrator \<Rightarrow> string \<Rightarrow> pydict \<times> orchestrator" where
  "search_jina w s query =
     (case get_next_api_key s ''JINA'' of
        Inl e \<Rightarrow> (failure (str_e e), s)
      | Inr (None, s') \<Rightarrow> (failure ''Jina API key nao disponivel'', s')
      | Inr (Some api_key, s') \<Rightarrow>
          if api_key = [] then (failure ''Jina API key nao disponivel'', s')
          else
            (let results = concat (map (jina_page w api_key) (jina_search_urls w query))
             in ([(''success'', PBool True), (''provider'', PStr ''JINA''),
                  (''results'', PList (take 20 results))], s')))"

text \<open>
  \<^verbatim>\<open>_search_google\<close>, \<^verbatim>\<open>_search_exa\<close>, \<^verbatim>\<open>_search_serper\<close>: one request,
  and on status 200 one result per element of a list in the JSON answer, e.g.
  \<^verbatim>\<open>
  for item in data.get('items', []):
      results.append({'title': item.get('title'), 'url': item.get('link'),
                      'snippet': item.get('snippet'), 'source': 'google'})
  return {'success': True, 'provider': 'GOOGLE', 'results': results}
  \<close>
  Each body is inside \<^verbatim>\<open>try: ... except Exception as e\<close>, which returns the failure
  dict.
\<close>

definition result_item :: "string \<Rightarrow> string \<Rightarrow> string \<Rightarrow> pyval \<Rightarrow> py_error + pyval" where
  "result_item url_key snippet_key source item =
     (case item of
        PDict d \<Rightarrow>
          Inr (PDict [(''title'', dict_get d ''title'' PNone), (''url'', dict_get d url_key PNone),
                      (''snippet'', dict_get d snippet_key PNone), (''source'', PStr source)])
      | _ \<Rightarrow> Inl (Exn AttributeError ''object has no attribute get''))"

definition result_items ::
  "string \<Rightarrow> (pyval \<Rightarrow> py_error + pyval) \<Rightarrow> pyval \<Rightarrow> py_error + pyval list" where
  "result_items list_key mk_item data =
     (case py_get data list_key (PList []) of
        Inl e \<Rightarrow> Inl e
      | Inr items \<Rightarrow>
          (case py_iter items of
             Inl e \<Rightarrow> Inl e
           | Inr xs \<Rightarrow> map_err mk_item xs))"

definition search_google :: "world \<Rightarrow> orchestrator \<Rightarrow> string \<Rightarrow> pydict \<times> orchestrator" where
  "search_google w s query =
     (case get_next_api_key s ''GOOGLE'' of
        Inl e \<Rightarrow> (failure (str_e e), s)
      | Inr (None, s') \<Rightarrow> (failure ''Google API key ou CSE ID nao disponivel'', s')
      | Inr (Some api_key, s') \<Rightarrow>
          if api_key = [] \<or> getenv w ''GOOGLE_CSE_ID'' = None \<or> getenv w ''GOOGLE_CSE_ID'' = Some []
          then (failure ''Google API key ou CSE ID nao disponivel'', s')
          else
            (case http w (service_urls ''GOOGLE'') api_key of
               Inl e \<Rightarrow> (failure (str_e e), s')
             | Inr response \<Rightarrow>
                 if status response = 200 then
                   (case json_body response of
                      Inl e \<Rightarrow> (failure (str_e e), s')
                    | Inr data \<Rightarrow>
                        (case result_items ''items'' (result_item ''link'' ''snippet'' ''google'') data of
                           Inl e \<Rightarrow> (failure (str_e e), s')
                         | Inr results \<Rightarrow>
                             ([(''success'', PBool True), (''provider'', PStr ''GOOGLE''),
                               (''results'', PList results)], s')))
                 else
                   (case text_body response of
                      Inl e \<Rightarrow> (failure (str_e e), s')
                    | Inr error_text \<Rightarrow>
                        (failure (''HTTP '' @ fstr w (PInt (status response))), s'))))"

definition search_exa :: "world \<Rightarrow> orchestrator \<Rightarrow> string \<Rightarrow> pydict \<times> orchestrator" where
  "search_exa w s query =
     (case get_next_api_key s ''EXA'' of
        Inl e \<Rightarrow> (failure (str_e e), s)
      | Inr (None, s') \<Rightarrow> (failure ''Exa API key nao disponivel'', s')
      | Inr (Some api_key, s') \<Rightarrow>
          if api_key = [] then (failure ''Exa API key nao disponivel'', s')
          else
            (case http w (service_urls ''EXA'') api_key of
               Inl e \<Rightarrow> (failure (str_e e), s')
             | Inr response \<Rightarrow>
                 if status response = 200 then
                   (case json_body response of
                      Inl e \<Rightarrow> (failure (str_e e), s')
                    | Inr data \<Rightarrow>
                        (case result_items ''results'' (result_item ''url'' ''text'' ''exa'') data of
                           Inl e \<Rightarrow> (failure (str_e e), s')
                         | Inr results \<Rightarrow>
                             ([(''success'', PBool True), (''provider'', PStr ''EXA''),
                               (''results'', PList results)], s')))
                 else
                   (case text_body response of
                      Inl e \<Rightarrow> (failure (str_e e), s')
                    | Inr error_text \<Rightarrow>
                        (failure (''HTTP '' @ fstr w (PInt (status response))), s'))))"

definition search_serper :: "world \<Rightarrow> orchestrator \<Rightarrow> string \<Rightarrow> pydict \<times> orchestrator" where
  "search_serper w s query =
     (case get_next_api_key s ''SERPER'' of
        Inl e \<Rightarrow> (failure (str_e e), s)
      | Inr (None, s') \<Rightarrow> (failure ''Serper API key nao disponivel'', s')
      | Inr (Some api_key, s') \<Rightarrow>
          if api_key = [] then (failure ''Serper API key nao disponivel'', s')
          else
            (case http w (service_urls ''SERPER'') api_key of
               Inl e \<Rightarrow> (failure (str_e e), s')
             | Inr response \<Rightarrow>
                 if status response = 200 then
                   (case json_body response of
                      Inl e \<Rightarrow> (failure (str_e e), s')
                    | Inr data \<Rightarrow>
                        (case result_items ''organic'' (result_item ''link'' ''snippet'' ''serper'') data of
                           Inl e \<Rightarrow> (failure (str_e e), s')
                         | Inr results \<Rightarrow>
                             ([(''success'', PBool True), (''provider'', PStr ''SERPER''),
                               (''results'', PList results)], s')))
                 else
                   (case text_body response of
                      Inl e \<Rightarrow> (failure (str_e e), s')
                    | Inr error_text \<Rightarrow>
                        (failure (''HTTP '' @ fstr w (PInt (status response))), s'))))"

text \<open>
  \<^verbatim>\<open>_search_youtube\<close> builds its records by subscription, which raises on a missing
  key:
  \<^verbatim>\<open>
  results.append({'title': item['snippet']['title'],
      'url': f"https://www.youtube.com/watch?v={item['id']['videoId']}",
      'snippet': item['snippet']['description'], 'source': 'youtube',
      'published_at': item['snippet']['publishedAt']})
  \<close>
\<close>

definition subscript2 :: "pyval \<Rightarrow> string \<Rightarrow> string \<Rightarrow> py_error + pyval" where
  "subscript2 x k1 k2 =
     (case py_subscript x k1 of Inl e \<Rightarrow> Inl e | Inr y \<Rightarrow> py_subscript y k2)"

definition youtube_item :: "world \<Rightarrow> pyval \<Rightarrow> py_error + pyval" where
  "youtube_item w item =
     (case subscript2 item ''snippet'' ''title'' of
        Inl e \<Rightarrow> Inl e
      | Inr title \<Rightarrow>
          (case subscript2 item ''id'' ''videoId'' of
             Inl e \<Rightarrow> Inl e
           | Inr video_id \<Rightarrow>
               (case subscript2 item ''snippet'' ''description'' of
                  Inl e \<Rightarrow> Inl e
                | Inr description \<Rightarrow>
                    (case subscript2 item ''snippet'' ''publishedAt'' of
                       Inl e \<Rightarrow> Inl e
                     | Inr published_at \<Rightarrow>
                         Inr (PDict [(''title'', title),
                                     (''url'', PStr (''https://www.youtube.com/watch?v='' @ fstr w video_id)),
                                     (''snippet'', description), (''source'', PStr ''youtube''),
                                     (''published_at'', published_at)])))))"

definition search_youtube :: "world \<Rightarrow> orchestrator \<Rightarrow> string \<Rightarrow> pydict \<times> orchestrator" where
  "search_youtube w s query =
     (case get_next_api_key s ''YOUTUBE'' of
        Inl e \<Rightarrow> (failure (str_e e), s)
      | Inr (None, s') \<Rightarrow> (failure ''YouTube API key nao disponivel'', s')
      | Inr (Some api_key, s') \<Rightarrow>
          if api_key = [] then (failure ''YouTube API key nao disponivel'', s')
          else
            (case http w (service_urls ''YOUTUBE'') api_key of
               Inl e \<Rightarrow> (failure (str_e e), s')
             | Inr response \<Rightarrow>
                 if status response = 200 then
                   (case json_body response of
                      Inl e \<Rightarrow> (failure (str_e e), s')
                    | Inr data \<Rightarrow>
                        (case result_items ''items'' (youtube_item w) data of
                           Inl e \<Rightarrow> (failure (str_e e), s')
                         | Inr results \<Rightarrow>
                             ([(''success'', PBool True), (''provider'', PStr ''YOUTUBE''),
                               (''platform'', PStr ''youtube''), (''results'', PList results)], s')))
                 else
                   (case text_body response of
                      Inl e \<Rightarrow> (failure (str_e e), s')
                    | Inr error_text \<Rightarrow>
                        (failure (''HTTP '' @ fstr w (PInt (status response))), s'))))"

text \<open>
  \<^verbatim>\<open>_search_alibaba_websailor\<close>. The body is inside
  \<^verbatim>\<open>try: ... except ImportError: ... except Exception as e: ...\<close>, and both handlers
  return a failure dict. It starts with
  \<^verbatim>\<open>from services.alibaba_websailor import alibaba_websailor\<close>
  and goes on, with the object so named, to
  \<^verbatim>\<open>
  if not alibaba_websailor or not alibaba_websailor.enabled:
      return {'success': False, 'error': 'Alibaba WebSailor nao habilitado'}
  research_result = await alibaba_websailor.navigate_and_research_deep(...)
  if not research_result or not research_result.get('conteudo_consolidado'):
      return {'success': False, 'error': 'Nenhum resultado da pesquisa WebSailor'}
  fontes_detalhadas = research_result.get('conteudo_consolidado', {}).get('fontes_detalhadas', [])
  for fonte in fontes_detalhadas:
      results.append({'title': fonte.get('title', ''), 'url': fonte.get('url', ''),
          'snippet': '', 'source': 'alibaba_websailor',
          'relevance_score': fonte.get('quality_score', 0.7),
          'content_length': fonte.get('content_length', 0)})
  return {'success': True, 'provider': 'ALIBABA_WEBSAILOR', 'results': results,
          'raw_data': research_result}
  \<close>
\<close>

definition float_0_7 :: pyval where
  "float_0_7 = PFloat (Fract 3152519739159347 4503599627370496)"

definition websailor_item :: "pyval \<Rightarrow> py_error + pyval" where
  "websailor_item fonte =
     (case fonte of
        PDict d \<Rightarrow>
          Inr (PDict [(''title'', dict_get d ''title'' (PStr [])), (''url'', dict_get d ''url'' (PStr [])),
                      (''snippet'', PStr []), (''source'', PStr ''alibaba_websailor''),
                      (''relevance_score'', dict_get d ''quality_score'' float_0_7),
                      (''content_length'', dict_get d ''content_length'' (PInt 0))])
      | _ \<Rightarrow> Inl (Exn AttributeError ''object has no attribute get''))"

definition websailor_convert :: "world \<Rightarrow> py_error + pydict" where
  "websailor_convert w =
     (if \<not> websailor_enabled w then Inr (failure ''Alibaba WebSailor nao habilitado'')
      else
        (case websailor_research w of
           Inl e \<Rightarrow> Inl e
         | Inr research_result \<Rightarrow>
             if \<not> truthy research_result then Inr (failure ''Nenhum resultado da pesquisa WebSailor'')
             else
               (case py_get research_result ''conteudo_consolidado'' PNone of
                  Inl e \<Rightarrow> Inl e
                | Inr consolidated \<Rightarrow>
                    if \<not> truthy consolidated
                    then Inr (failure ''Nenhum resultado da pesquisa WebSailor'')
                    else
                      (case result_items ''fontes_detalhadas'' websailor_item consolidated of
                         Inl e \<Rightarrow> Inl e
                       | Inr results \<Rightarrow>
                           Inr [(''success'', PBool True), (''provider'', PStr ''ALIBABA_WEBSAILOR''),
                                (''results'', PList results), (''raw_data'', research_result)]))))"

definition search_alibaba_websailor :: "world \<Rightarrow> string \<Rightarrow> pyval \<Rightarrow> pydict" where
  "search_alibaba_websailor w query context =
     (case (case import_from (websailor_executed w) alibaba_websailor_globals ''alibaba_websailor'' of
              Inl e \<Rightarrow> Inl e
            | Inr u \<Rightarrow> websailor_convert w) of
        Inl e \<Rightarrow>
          if exn_class e = ImportError then failure ''Alibaba WebSailor nao disponivel''
          else failure (str_e e)
      | Inr r \<Rightarrow> r)"

section \<open>Virality and screenshots (\<^verbatim>\<open>real_search_orchestrator.py\<close>)\<close>

text \<open>
  \<^verbatim>\<open>
  def _identify_viral_content(self, social_media_results):
      viral_content = []
      for item in social_media_results:
          likes = item.get('likes', 0)
          comments = item.get('comments', 0)
          shares = item.get('shares', 0)
          if (likes >= 1000 or comments >= 100 or shares >= 50):
              viral_content.append(item)
      return viral_content
  \<close>
  \<^verbatim>\<open>or\<close> evaluates its right operand only when the left one is false.
\<close>

definition viral_condition :: "pyval \<Rightarrow> pyval \<Rightarrow> pyval \<Rightarrow> py_error + bool" where
  "viral_condition likes comments shares =
     (case py_ge likes 1000 of
        Inl e \<Rightarrow> Inl e
      | Inr l \<Rightarrow>
          if l then Inr True
          else (case py_ge comments 100 of
                  Inl e \<Rightarrow> Inl e
                | Inr c \<Rightarrow> if c then Inr True else py_ge shares 50))"

definition is_viral :: "pyval \<Rightarrow> py_error + bool" where
  "is_viral item =
     (case item of
        PDict d \<Rightarrow>
          viral_condition (dict_get d ''likes'' (PInt 0)) (dict_get d ''comments'' (PInt 0))
            (dict_get d ''shares'' (PInt 0))
      | _ \<Rightarrow> Inl (Exn AttributeError ''object has no attribute get''))"

fun identify_viral_content :: "pyval list \<Rightarrow> py_error + pyval list" where
  "identify_viral_content [] = Inr []"
| "identify_viral_content (item # rest) =
     (case is_viral item of
        Inl e \<Rightarrow> Inl e
      | Inr v \<Rightarrow>
          (case identify_viral_content rest of
             Inl e \<Rightarrow> Inl e
           | Inr viral_content \<Rightarrow> Inr (if v then item # viral_content else viral_content)))"

text \<open>
  \<^verbatim>\<open>
  async def _capture_viral_screenshots(self, viral_content, session_id):
      from services.visual_content_capture import visual_content_capture
      captured_screenshots = []
      for item in viral_content:
          url = item.get('url')
          if url:
              try:
                  screenshot_path = await visual_content_capture.capture_screenshot_async(url, session_id)
                  if screenshot_path:
                      captured_screenshots.append(screenshot_path)
              except Exception as e:
                  logger.warning(...)
      return captured_screenshots
  \<close>
  \<open>capture_item\<close> is the body of the loop: the paths it appends.
\<close>

definition capture_item :: "world \<Rightarrow> string \<Rightarrow> pyval \<Rightarrow> py_error + pyval list" where
  "capture_item w session_id item =
     (case py_get item ''url'' PNone of
        Inl e \<Rightarrow> Inl e
      | Inr url \<Rightarrow>
          if truthy url then
            (case getattr VisualContentCapture_attributes ''capture_screenshot_async'' of
               Inl e \<Rightarrow> Inr []
             | Inr u \<Rightarrow>
                 (case capture_async w url session_id of
                    Inl e \<Rightarrow> Inr []
                  | Inr screenshot_path \<Rightarrow>
                      if truthy screenshot_path then Inr [screenshot_path] else Inr []))
          else Inr [])"

definition capture_viral_screenshots :: "world \<Rightarrow> pyval list \<Rightarrow> string \<Rightarrow> py_error + pyval list" where
  "capture_viral_screenshots w viral_content session_id =
     (case import_from (visual_capture_executed w) visual_content_capture_globals
             ''visual_content_capture'' of
        Inl e \<Rightarrow> Inl e
      | Inr u \<Rightarrow>
          (case map_err (capture_item w session_id) viral_content of
             Inl e \<Rightarrow> Inl e
           | Inr paths \<Rightarrow> Inr (concat paths)))"

section \<open>Predictive analytics service (\<^verbatim>\<open>predictive_analytics_service.py\<close>)\<close>

text \<open>
  \<^verbatim>\<open>
  async def analyze_all_data(self, session_id):
      try:
          predictive_analysis_results = await self.engine.analyze_session_data(session_id)
          salvar_etapa("predictive_analysis_results", predictive_analysis_results, ...)
          return predictive_analysis_results
      except FileNotFoundError as fnfe:
          return {"success": False, "error": str(fnfe)}
      except Exception as e:
          salvar_erro("predictive_analysis", e, contexto={"session_id": session_id})
          return {"success": False, "error": str(e)}
  \<close>
\<close>

definition analysis_failed :: "world \<Rightarrow> py_error \<Rightarrow> py_error + pyval" where
  "analysis_failed w e =
     (if exn_class e = FileNotFoundError then Inr (PDict (failure (str_e e)))
      else (case salvar_erro_ok w of
              Inl e' \<Rightarrow> Inl e'
            | Inr u \<Rightarrow> Inr (PDict (failure (str_e e)))))"

definition analyze_all_data :: "world \<Rightarrow> string \<Rightarrow> py_error + pyval" where
  "analyze_all_data w session_id =
     (case engine_analysis w session_id of
        Inl e \<Rightarrow> analysis_failed w e
      | Inr predictive_analysis_results \<Rightarrow>
          (case salvar_etapa_ok w of
             Inl e \<Rightarrow> analysis_failed w e
           | Inr u \<Rightarrow> Inr predictive_analysis_results))"

section \<open>The orchestrator run (\<^verbatim>\<open>real_search_orchestrator.py\<close>)\<close>

text \<open>
  The four result lists of the document \<^verbatim>\<open>search_results\<close> that the search phases
  extend while they run.
\<close>

record search_lists =
  providers_used :: "pyval list"
  web_results :: "pyval list"
  social_results :: "pyval list"
  youtube_results :: "pyval list"

text \<open>
  Phase 1:
  \<^verbatim>\<open>
  websailor_results = await self._search_alibaba_websailor(query, context)
  if websailor_results.get('success'):
      search_results['web_results'].extend(websailor_results['results'])
      search_results['providers_used'].append('ALIBABA_WEBSAILOR')
  \<close>
\<close>

definition fase1 :: "world \<Rightarrow> string \<Rightarrow> pyval \<Rightarrow> search_lists \<Rightarrow> py_error + search_lists" where
  "fase1 w query context sr =
     (let websailor_results = search_alibaba_websailor w query context
      in if truthy (dict_get websailor_results ''success'' PNone) then
           (case py_subscript (PDict websailor_results) ''results'' of
              Inl e \<Rightarrow> Inl e
            | Inr results \<Rightarrow>
                (case py_iter results of
                   Inl e \<Rightarrow> Inl e
                 | Inr items \<Rightarrow>
                     Inr (sr\<lparr>web_results := web_results sr @ items,
                             providers_used := providers_used sr @ [PStr ''ALIBABA_WEBSAILOR'']\<rparr>)))
         else Inr sr)"

text \<open>
  Phases 2 and 3 build a list of tasks, one per provider that has an entry in
  \<^verbatim>\<open>self.api_keys\<close>, and run them with \<^verbatim>\<open>asyncio.gather\<close>, which gives the
  results in the order of the tasks. Each adapter touches only its own provider's
  cursor, so the tasks are run here one after the other. No adapter raises, so the
  branch for a result that is an exception is never taken.
\<close>

type_synonym adapter = "world \<Rightarrow> orchestrator \<Rightarrow> string \<Rightarrow> pydict \<times> orchestrator"

definition web_tasks :: "orchestrator \<Rightarrow> adapter list" where
  "web_tasks s =
     (if api_keys s ''FIRECRAWL'' \<noteq> None then [search_firecrawl] else [])
     @ (if api_keys s ''JINA'' \<noteq> None then [search_jina] else [])
     @ (if api_keys s ''GOOGLE'' \<noteq> None then [search_google] else [])
     @ (if api_keys s ''EXA'' \<noteq> None then [search_exa] else [])
     @ (if api_keys s ''SERPER'' \<noteq> None then [search_serper] else [])"

definition social_tasks :: "orchestrator \<Rightarrow> adapter list" where
  "social_tasks s = (if api_keys s ''YOUTUBE'' \<noteq> None then [search_youtube] else [])"

fun gather :: "adapter list \<Rightarrow> world \<Rightarrow> orchestrator \<Rightarrow> string \<Rightarrow> pydict list \<times> orchestrator" where
  "gather [] w s query = ([], s)"
| "gather (task # tasks) w s query =
     (case task w s query of
        (result, s1) \<Rightarrow>
          (case gather tasks w s1 query of
             (results, s2) \<Rightarrow> (result # results, s2)))"

text \<open>
  \<^verbatim>\<open>
  if result.get('success') and result.get('results'):
      search_results['web_results'].extend(result['results'])
      search_results['providers_used'].append(result.get('provider', 'unknown'))
  \<close>
\<close>

definition merge_web_result :: "pydict \<Rightarrow> search_lists \<Rightarrow> py_error + search_lists" where
  "merge_web_result result sr =
     (if truthy (dict_get result ''success'' PNone) \<and> truthy (dict_get result ''results'' PNone) then
        (case py_subscript (PDict result) ''results'' of
           Inl e \<Rightarrow> Inl e
         | Inr results \<Rightarrow>
             (case py_iter results of
                Inl e \<Rightarrow> Inl e
              | Inr items \<Rightarrow>
                  Inr (sr\<lparr>web_results := web_results sr @ items,
                          providers_used := providers_used sr
                             @ [dict_get result ''provider'' (PStr ''unknown'')]\<rparr>)))
      else Inr sr)"

text \<open>
  \<^verbatim>\<open>
  if result.get('success'):
      if result.get('platform') == 'youtube':
          search_results['youtube_results'].extend(result.get('results', []))
      else:
          search_results['social_results'].extend(result.get('results', []))
  \<close>
\<close>

definition merge_social_result :: "pydict \<Rightarrow> search_lists \<Rightarrow> py_error + search_lists" where
  "merge_social_result result sr =
     (if truthy (dict_get result ''success'' PNone) then
        (case py_iter (dict_get result ''results'' (PList [])) of
           Inl e \<Rightarrow> Inl e
         | Inr items \<Rightarrow>
             if dict_get result ''platform'' PNone = PStr ''youtube''
             then Inr (sr\<lparr>youtube_results := youtube_results sr @ items\<rparr>)
             else Inr (sr\<lparr>social_results := social_results sr @ items\<rparr>))
      else Inr sr)"

text \<open>Phases 1 to 3: the lists after the searches, and the orchestrator's new state.\<close>

definition search_phases ::
  "world \<Rightarrow> orchestrator \<Rightarrow> string \<Rightarrow> pyval \<Rightarrow> (py_error + search_lists) \<times> orchestrator" where
  "search_phases w s query context =
     (case fase1 w query context
             \<lparr>providers_used = [], web_results = [], social_results = [], youtube_results = []\<rparr> of
        Inl e \<Rightarrow> (Inl e, s)
      | Inr sr1 \<Rightarrow>
          (case gather (web_tasks s) w s query of
             (web, s1) \<Rightarrow>
               (case fold_err merge_web_result web sr1 of
                  Inl e \<Rightarrow> (Inl e, s1)
                | Inr sr2 \<Rightarrow>
                    (case gather (social_tasks s1) w s1 query of
                       (social, s2) \<Rightarrow>
                         (case fold_err merge_social_result social sr2 of
                            Inl e \<Rightarrow> (Inl e, s2)
                          | Inr sr3 \<Rightarrow> (Inr sr3, s2))))))"

text \<open>
  The final statistics:
  \<^verbatim>\<open>
  all_results = search_results['web_results'] + search_results['social_results']
                + search_results['youtube_results']
  unique_urls = list(set(r.get('url', '') for r in all_results if r.get('url')))
  search_results['statistics'].update({
      'total_sources': len(all_results),
      'unique_urls': len(unique_urls),
      'content_extracted': sum(len(r.get('content', '')) for r in all_results),
      'api_calls_made': sum(self.session_stats['api_rotations'].values()),
      'search_duration': search_duration})
  \<close>
\<close>

definition url_of :: "pyval \<Rightarrow> py_error + pyval list" where
  "url_of r =
     (case py_get r ''url'' PNone of
        Inl e \<Rightarrow> Inl e
      | Inr u \<Rightarrow>
          if truthy u then
            (if py_hashable u then Inr [py_key u] else Inl (Exn TypeError ''unhashable type''))
          else Inr [])"

definition unique_urls :: "pyval list \<Rightarrow> py_error + pyval list" where
  "unique_urls all_results =
     (case map_err url_of all_results of
        Inl e \<Rightarrow> Inl e
      | Inr us \<Rightarrow> Inr (remdups (concat us)))"

definition content_len :: "pyval \<Rightarrow> py_error + int" where
  "content_len r =
     (case py_get r ''content'' (PStr []) of
        Inl e \<Rightarrow> Inl e
      | Inr c \<Rightarrow> py_len c)"

definition statistics ::
  "world \<Rightarrow> orchestrator \<Rightarrow> pyval list \<Rightarrow> py_error + pydict" where
  "statistics w s all_results =
     (case unique_urls all_results of
        Inl e \<Rightarrow> Inl e
      | Inr urls \<Rightarrow>
          (case map_err content_len all_results of
             Inl e \<Rightarrow> Inl e
           | Inr lens \<Rightarrow>
               Inr [(''total_sources'', PInt (int (length all_results))),
                    (''unique_urls'', PInt (int (length urls))),
                    (''content_extracted'', PInt (sum_list lens)),
                    (''api_calls_made'', PInt (int (sum_list (map snd (api_rotations s))))),
                    (''search_duration'', elapsed w)]))"

text \<open>
  Phases 4 to 6 and the returned document. Phase 5 runs only when there is viral
  content:
  \<^verbatim>\<open>
  if viral_content:
      screenshots = await self._capture_viral_screenshots(viral_content, session_id)
      search_results['screenshots_captured'] = screenshots
      self.session_stats['screenshots_captured'] = len(screenshots)
  \<close>
\<close>

definition fase5 ::
  "world \<Rightarrow> orchestrator \<Rightarrow> pyval list \<Rightarrow> string \<Rightarrow> py_error + (pyval list \<times> orchestrator)" where
  "fase5 w s viral_content session_id =
     (if viral_content \<noteq> [] then
        (case capture_viral_screenshots w viral_content session_id of
           Inl e \<Rightarrow> Inl e
         | Inr screenshots \<Rightarrow>
             Inr (screenshots, s\<lparr>stat_screenshots_captured := length screenshots\<rparr>))
      else Inr ([], s))"

definition search_document ::
  "world \<Rightarrow> string \<Rightarrow> string \<Rightarrow> search_lists \<Rightarrow> pyval list \<Rightarrow> pyval list \<Rightarrow> pydict \<Rightarrow> pyval
     \<Rightarrow> pydict" where
  "search_document w query session_id sr viral_content screenshots stats predictive_insights =
     [(''query'', PStr query),
      (''session_id'', PStr session_id),
      (''search_started'', PStr (now w)),
      (''providers_used'', PList (providers_used sr)),
      (''web_results'', PList (web_results sr)),
      (''social_results'', PList (social_results sr)),
      (''youtube_results'', PList (youtube_results sr)),
      (''viral_content'', PList viral_content),
      (''screenshots_captured'', PList screenshots),
      (''statistics'', PDict stats),
      (''predictive_insights'', predictive_insights)]"

text \<open>
  \<^verbatim>\<open>execute_massive_real_search\<close>: the body is inside
  \<^verbatim>\<open>try: ... except Exception as e: logger.error(...); raise\<close>, so an exception of
  any phase is the outcome of the call. The state is the orchestrator's as the call
  leaves it.
\<close>

definition execute_massive_real_search ::
  "world \<Rightarrow> orchestrator \<Rightarrow> string \<Rightarrow> pyval \<Rightarrow> string \<Rightarrow> (py_error + pydict) \<times> orchestrator" where
  "execute_massive_real_search w s query context session_id =
     (case search_phases w s query context of
        (Inl e, s1) \<Rightarrow> (Inl e, s1)
      | (Inr sr, s1) \<Rightarrow>
          (case identify_viral_content (youtube_results sr @ social_results sr) of
             Inl e \<Rightarrow> (Inl e, s1)
           | Inr viral_content \<Rightarrow>
               (case fase5 w s1 viral_content session_id of
                  Inl e \<Rightarrow> (Inl e, s1)
                | Inr (screenshots, s2) \<Rightarrow>
                    (case analyze_all_data w session_id of
                       Inl e \<Rightarrow> (Inl e, s2)
                     | Inr predictive_insights \<Rightarrow>
                         (case statistics w s2
                                 (web_results sr @ social_results sr @ youtube_results sr) of
                            Inl e \<Rightarrow> (Inl e, s2)
                          | Inr stats \<Rightarrow>
                              (Inr (search_document w query session_id sr viral_content
                                      screenshots stats predictive_insights), s2))))))"

section \<open>Notions used in the statements\<close>

text \<open>The name a web result is recorded under in \<^verbatim>\<open>providers_used\<close>.\<close>

definition provider_of :: "pydict \<Rightarrow> pyval" where
  "provider_of r = dict_get r ''provider'' (PStr ''unknown'')"

text \<open>
  What one adapter result adds to \<^verbatim>\<open>web_results\<close>: its \<^verbatim>\<open>results\<close>, when it
  reports success and the list is not empty.
\<close>

definition accepted_items :: "pydict \<Rightarrow> pyval list" where
  "accepted_items result =
     (if truthy (dict_get result ''success'' PNone) \<and> truthy (dict_get result ''results'' PNone)
      then (case py_iter (dict_get result ''results'' PNone) of Inl e \<Rightarrow> [] | Inr items \<Rightarrow> items)
      else [])"

text \<open>
  The property of a deduplicated corpus: no two records with the same
  \<^verbatim>\<open>url\<close>.
\<close>

definition record_url :: "pyval \<Rightarrow> pyval" where
  "record_url r = (case r of PDict d \<Rightarrow> dict_get d ''url'' PNone | _ \<Rightarrow> PNone)"

definition one_record_per_url :: "pyval list \<Rightarrow> bool" where
  "one_record_per_url rs = distinct (map record_url rs)"

section \<open>Quality score (\<^verbatim>\<open>alibaba_websailor.py\<close>)\<close>

text \<open>
  A string is the list of its characters, and \<^verbatim>\<open>len\<close> counts them.
  \<^verbatim>\<open>a in b\<close> on strings holds when \<open>a\<close> is a contiguous part of \<open>b\<close>, which is
  \<^const>\<open>sublist\<close>. \<^verbatim>\<open>str.lower()\<close> is the world's \<open>str_lower\<close>.
\<close>

text \<open>The two sets of \<^verbatim>\<open>AlibabaWebSailorAgent.__init__\<close>.\<close>

definition preferred_domains :: "string list" where
  "preferred_domains =
     [''g1.globo.com'', ''exame.com'', ''valor.globo.com'', ''estadao.com.br'',
      ''folha.uol.com.br'', ''canaltech.com.br'', ''tecmundo.com.br'',
      ''olhardigital.com.br'', ''infomoney.com.br'', ''startse.com'',
      ''revistapegn.globo.com'', ''epocanegocios.globo.com'', ''istoedinheiro.com.br'',
      ''convergenciadigital.com.br'', ''mobiletime.com.br'', ''teletime.com.br'',
      ''portaltelemedicina.com.br'', ''saudedigitalbrasil.com.br'', ''amb.org.br'',
      ''portal.cfm.org.br'', ''scielo.br'', ''ibge.gov.br'', ''fiocruz.br'']"

definition blocked_domains :: "string list" where
  "blocked_domains = [''airbnb.com'']"

text \<open>
  \<^verbatim>\<open>
  def _calculate_content_quality(self, content, url, context):
      score = 0.0
      length = len(content)
      if length > 1000:   score += 40
      elif length > 500:  score += 20
      elif length > 100:  score += 10
      query_keywords = context.get("keywords", [])
      if query_keywords:
          for keyword in query_keywords:
              if keyword.lower() in content.lower():
                  score += 5
      if any(domain in urlparse(url).netloc.lower() for domain in self.preferred_domains):
          score += 20
      if any(domain in urlparse(url).netloc.lower() for domain in self.blocked_domains):
          score -= 30
      return min(100.0, max(0.0, score))
  \<close>
  The score is a float that only ever holds multiples of 5, which floats represent
  exactly; it is the rational number here. \<open>keyword_points\<close> is what the loop over the
  keywords adds, one summand per keyword. \<open>in_domains\<close> is the test
  \<^verbatim>\<open>any(domain in netloc.lower() for domain in domains)\<close>.
\<close>

definition keyword_point :: "world \<Rightarrow> string \<Rightarrow> pyval \<Rightarrow> py_error + rat" where
  "keyword_point w content keyword =
     (case keyword of
        PStr k \<Rightarrow> Inr (if sublist (str_lower w k) (str_lower w content) then 5 else 0)
      | _ \<Rightarrow> Inl (Exn AttributeError ''object has no attribute lower''))"

definition keyword_points :: "world \<Rightarrow> string \<Rightarrow> pyval \<Rightarrow> py_error + rat list" where
  "keyword_points w content context =
     (case py_get context ''keywords'' (PList []) of
        Inl e \<Rightarrow> Inl e
      | Inr query_keywords \<Rightarrow>
          if truthy query_keywords then
            (case py_iter query_keywords of
               Inl e \<Rightarrow> Inl e
             | Inr keywords \<Rightarrow> map_err (keyword_point w content) keywords)
          else Inr [])"

definition in_domains :: "(string \<Rightarrow> string) \<Rightarrow> string list \<Rightarrow> string \<Rightarrow> bool" where
  "in_domains lower domains netloc = list_ex (\<lambda>domain. sublist domain (lower netloc)) domains"

definition calculate_content_quality :: "world \<Rightarrow> string \<Rightarrow> string \<Rightarrow> pyval \<Rightarrow> py_error + rat" where
  "calculate_content_quality w content url context =
     (let score1 = (if 1000 < length content then 40
                    else if 500 < length content then 20
                    else if 100 < length content then 10
                    else 0)
      in case keyword_points w content context of
           Inl e \<Rightarrow> Inl e
         | Inr points \<Rightarrow>
             (case urlparse_netloc w url of
                Inl e \<Rightarrow> Inl e
              | Inr netloc \<Rightarrow>
                  (let score2 = score1 + sum_list points;
                       score3 = (if in_domains (str_lower w) preferred_domains netloc
                                 then score2 + 20 else score2);
                       score4 = (if in_domains (str_lower w) blocked_domains netloc
                                 then score3 - 30 else score3)
                   in Inr (min 100 (max 0 score4)))))"

text \<open>
  The heuristic in the words of the specification, on a list of keywords and the
  network location of the address, for a given lower-casing of strings: points for the
  length band, 5 points per keyword found in the content regardless of case, 20 points
  for a preferred source, 30 points off for a blocked source, the sum clamped to the
  interval from 0 to 100.
\<close>

definition length_band :: "string \<Rightarrow> rat" where
  "length_band content =
     (if 1000 < length content then 40
      else if 500 < length content then 20
      else if 100 < length content then 10
      else 0)"

definition matched_keywords :: "(string \<Rightarrow> string) \<Rightarrow> string \<Rightarrow> string list \<Rightarrow> nat" where
  "matched_keywords lower content keywords =
     length (filter (\<lambda>k. sublist (lower k) (lower content)) keywords)"

definition quality_heuristic ::
  "(string \<Rightarrow> string) \<Rightarrow> string \<Rightarrow> string list \<Rightarrow> string \<Rightarrow> rat" where
  "quality_heuristic lower content keywords netloc =
     min 100 (max 0 (length_band content + 5 * of_nat (matched_keywords lower content keywords)
                     + (if in_domains lower preferred_domains netloc then 20 else 0)
                     - (if in_domains lower blocked_domains netloc then 30 else 0)))"

section \<open>Screenshot capture (\<^verbatim>\<open>visual_content_capture.py\<close>)\<close>

text \<open>
  What the browser and the file system answer during one call of
  \<^verbatim>\<open>capture_screenshot\<close>:
  \<^item> \<open>full_check\<close>: \<^verbatim>\<open>selenium_checker.full_check()\<close>, of a module that is imported
    inside \<^verbatim>\<open>_setup_driver\<close>;
  \<^item> \<open>manager_driver\<close>, \<open>system_driver\<close>: starting Chrome with the driver that
    \<^verbatim>\<open>ChromeDriverManager\<close> installs, and with the system's driver;
  \<^item> \<open>set_timeout\<close>: \<^verbatim>\<open>driver.set_page_load_timeout\<close>;
  \<^item> \<open>page_get\<close>, \<open>wait_body\<close>: \<^verbatim>\<open>driver.get(url)\<close> and the wait for the body;
  \<^item> \<open>page_title\<close>, \<open>page_current_url\<close>, \<open>meta_content\<close>: reading
    \<^verbatim>\<open>driver.title\<close>, \<^verbatim>\<open>driver.current_url\<close> and the content of the description
    element, each of which can raise;
  \<^item> \<open>mkdir_parent\<close>: creating the directory of the output path;
  \<^item> \<open>save_screenshot\<close>: \<^verbatim>\<open>driver.save_screenshot(path)\<close>, which raises, writes
    a file of some size, or writes nothing;
  \<^item> \<open>timestamp\<close>: the time of the answer.

  \<^verbatim>\<open>driver.quit()\<close> is called inside its own handler, which only logs, so its
  outcome has no effect on the call. The output path is taken as \<^verbatim>\<open>Path\<close> prints
  it.
\<close>

record browser =
  full_check :: "py_error + pyval"
  manager_driver :: "py_error + unit"
  system_driver :: "py_error + unit"
  set_timeout :: "py_error + unit"
  page_get :: "string \<Rightarrow> py_error + unit"
  wait_body :: "py_error + unit"
  page_title :: "py_error + pyval"
  page_current_url :: "py_error + pyval"
  meta_content :: "py_error + pyval"
  mkdir_parent :: "string \<Rightarrow> py_error + unit"
  save_screenshot :: "string \<Rightarrow> py_error + nat option"
  timestamp :: string

text \<open>
  The capturer and what it has done so far: whether \<^verbatim>\<open>self.driver\<close> holds a driver,
  the number of calls of \<^verbatim>\<open>_setup_driver\<close>, the addresses passed to
  \<^verbatim>\<open>driver.get\<close>, the number of calls of \<^verbatim>\<open>driver.quit\<close>, and the screenshot
  files on disk with their sizes.
\<close>

record capturer =
  driver :: bool
  setup_calls :: nat
  visited :: "string list"
  quit_calls :: nat
  files :: "(string \<times> nat) list"

text \<open>The capturer after \<^verbatim>\<open>VisualContentCapture.__init__\<close>, on an empty disk.\<close>

definition new_capturer :: capturer where
  "new_capturer = \<lparr>driver = False, setup_calls = 0, visited = [], quit_calls = 0, files = []\<rparr>"

text \<open>
  \<^verbatim>\<open>_setup_driver\<close>, after the options are built:
  \<^verbatim>\<open>
  check_results = selenium_checker.full_check()
  if not check_results["selenium_ready"]:
      raise Exception("Selenium nao esta configurado corretamente")
  best_chrome_path = check_results["best_chrome_path"]
  ...
  try:
      service = Service(ChromeDriverManager().install())
      driver = webdriver.Chrome(service=service, options=chrome_options)
  except Exception as e:
      driver = webdriver.Chrome(options=chrome_options)
  driver.set_page_load_timeout(self.page_load_timeout)
  return driver
  \<close>
  Its own handler logs the exception and raises it again.
\<close>

definition setup_driver :: "browser \<Rightarrow> py_error + unit" where
  "setup_driver b =
     (case full_check b of
        Inl e \<Rightarrow> Inl e
      | Inr check_results \<Rightarrow>
          (case py_subscript check_results ''selenium_ready'' of
             Inl e \<Rightarrow> Inl e
           | Inr ready \<Rightarrow>
               if \<not> truthy ready
               then Inl (Exn OtherException ''Selenium nao esta configurado corretamente'')
               else
                 (case py_subscript check_results ''best_chrome_path'' of
                    Inl e \<Rightarrow> Inl e
                  | Inr best_chrome_path \<Rightarrow>
                      (case manager_driver b of
                         Inr u \<Rightarrow> set_timeout b
                       | Inl e \<Rightarrow>
                           (case system_driver b of
                              Inl e' \<Rightarrow> Inl e'
                            | Inr u \<Rightarrow> set_timeout b)))))"

text \<open>
  The part of \<^verbatim>\<open>capture_screenshot\<close> after \<^verbatim>\<open>self.driver.get(url)\<close>, with the files
  on disk:
  \<^verbatim>\<open>
  try:
      WebDriverWait(self.driver, self.wait_timeout).until(...)
  except TimeoutException:
      logger.warning(...)
  time.sleep(2)
  page_title = self.driver.title or "Sem titulo"
  page_url = self.driver.current_url
  meta_description = ""
  try:
      meta_element = self.driver.find_element(By.CSS_SELECTOR, 'meta[name="description"]')
      meta_description = meta_element.get_attribute("content") or ""
  except:
      pass
  screenshot_path = Path(output_path)
  screenshot_path.parent.mkdir(parents=True, exist_ok=True)
  self.driver.save_screenshot(str(screenshot_path))
  if screenshot_path.exists() and screenshot_path.stat().st_size > 0:
      return {"success": True, "url": url, "final_url": page_url, "title": page_title,
              "description": meta_description, "filepath": str(screenshot_path),
              "filesize": screenshot_path.stat().st_size, "timestamp": ...}
  else:
      raise Exception("Screenshot nao foi criado ou esta vazio")
  \<close>
\<close>

definition take_screenshot ::
  "browser \<Rightarrow> (string \<times> nat) list \<Rightarrow> string \<Rightarrow> string
     \<Rightarrow> (py_error + pydict) \<times> (string \<times> nat) list" where
  "take_screenshot b disk url output_path =
     (case (case wait_body b of
              Inl e \<Rightarrow> if exn_class e = TimeoutException then Inr () else Inl e
            | Inr u \<Rightarrow> Inr ()) of
        Inl e \<Rightarrow> (Inl e, disk)
      | Inr u \<Rightarrow>
          (case page_title b of
             Inl e \<Rightarrow> (Inl e, disk)
           | Inr driver_title \<Rightarrow>
          (case page_current_url b of
             Inl e \<Rightarrow> (Inl e, disk)
           | Inr page_url \<Rightarrow>
          (let title = (if truthy driver_title then driver_title else PStr ''Sem titulo'');
               meta_description =
                 (case meta_content b of
                    Inl e \<Rightarrow> PStr []
                  | Inr content \<Rightarrow> if truthy content then content else PStr [])
           in case mkdir_parent b output_path of
                Inl e \<Rightarrow> (Inl e, disk)
              | Inr u \<Rightarrow>
                  (case save_screenshot b output_path of
                     Inl e \<Rightarrow> (Inl e, disk)
                   | Inr written \<Rightarrow>
                       (let disk' = (case written of
                                       None \<Rightarrow> disk
                                     | Some n \<Rightarrow> AList.update output_path n disk)
                        in case map_of disk' output_path of
                             None \<Rightarrow>
                               (Inl (Exn OtherException ''Screenshot nao foi criado ou esta vazio''), disk')
                           | Some n \<Rightarrow>
                               if 0 < n then
                                 (Inr [(''success'', PBool True), (''url'', PStr url),
                                       (''final_url'', page_url), (''title'', title),
                                       (''description'', meta_description),
                                       (''filepath'', PStr output_path),
                                       (''filesize'', PInt (int n)),
                                       (''timestamp'', PStr (timestamp b))], disk')
                               else
                                 (Inl (Exn OtherException ''Screenshot nao foi criado ou esta vazio''),
                                  disk')))))))"

text \<open>
  \<^verbatim>\<open>
  def capture_screenshot(self, url, output_path):
      try:
          if not self.driver:
              self.driver = self._setup_driver()
          self.driver.get(url)
          ...
      except Exception as e:
          error_msg = f"Erro ao capturar screenshot de {url}: {e}"
          return {"success": False, "url": url, "error": error_msg, "timestamp": ...}
      finally:
          if self.driver:
              try:
                  self.driver.quit()
              except Exception as e:
                  logger.error(...)
              self.driver = None
  \<close>
  \<open>capture_attempt\<close> is the body of the \<^verbatim>\<open>try\<close>; \<open>capture_screenshot\<close> adds the
  handler and the \<^verbatim>\<open>finally\<close> block.
\<close>

definition capture_attempt ::
  "browser \<Rightarrow> capturer \<Rightarrow> string \<Rightarrow> string \<Rightarrow> (py_error + pydict) \<times> capturer" where
  "capture_attempt b s url output_path =
     (case (if \<not> driver s
            then (case setup_driver b of
                    Inl e \<Rightarrow> (Inl e, s\<lparr>setup_calls := setup_calls s + 1\<rparr>)
                  | Inr u \<Rightarrow> (Inr (), s\<lparr>setup_calls := setup_calls s + 1, driver := True\<rparr>))
            else (Inr (), s)) of
        (Inl e, s1) \<Rightarrow> (Inl e, s1)
      | (Inr u, s1) \<Rightarrow>
          (let s2 = s1\<lparr>visited := visited s1 @ [url]\<rparr>
           in case page_get b url of
                Inl e \<Rightarrow> (Inl e, s2)
              | Inr u \<Rightarrow>
                  (case take_screenshot b (files s2) url output_path of
                     (r, disk) \<Rightarrow> (r, s2\<lparr>files := disk\<rparr>))))"

definition capture_screenshot ::
  "browser \<Rightarrow> capturer \<Rightarrow> string \<Rightarrow> string \<Rightarrow> pydict \<times> capturer" where
  "capture_screenshot b s url output_path =
     (case capture_attempt b s url output_path of
        (r, s1) \<Rightarrow>
          (let result =
                 (case r of
                    Inr artifact \<Rightarrow> artifact
                  | Inl e \<Rightarrow>
                      [(''success'', PBool False), (''url'', PStr url),
                       (''error'', PStr (''Erro ao capturar screenshot de '' @ url @ '': '' @ str_e e)),
                       (''timestamp'', PStr (timestamp b))]);
               s2 = (if driver s1 then s1\<lparr>quit_calls := quit_calls s1 + 1, driver := False\<rparr> else s1)
           in (result, s2)))"

text \<open>
  The answers with which a capture goes through: the browser starts, the page loads
  (a timeout of the wait for the body is only logged), its title and address are read,
  the directory is made, and \<^verbatim>\<open>save_screenshot\<close> writes a file of \<open>n > 0\<close> bytes.
\<close>

definition screenshot_saved :: "browser \<Rightarrow> string \<Rightarrow> string \<Rightarrow> nat \<Rightarrow> bool" where
  "screenshot_saved b url output_path n =
     (setup_driver b = Inr () \<and> page_get b url = Inr ()
      \<and> (case wait_body b of Inr u \<Rightarrow> True | Inl e \<Rightarrow> exn_class e = TimeoutException)
      \<and> (case page_title b of Inr t \<Rightarrow> True | Inl e \<Rightarrow> False)
      \<and> (case page_current_url b of Inr t \<Rightarrow> True | Inl e \<Rightarrow> False)
      \<and> mkdir_parent b output_path = Inr ()
      \<and> save_screenshot b output_path = Inr (Some n) \<and> 0 < n)"

section \<open>Session collector (\<^verbatim>\<open>massive_data_collector.py\<close>)\<close>

text \<open>
  The collaborators of \<^verbatim>\<open>execute_massive_collection\<close>, whose answers are fields of
  \<open>collector_world\<close>:
  \<^item> \<open>interleaved_search\<close>, \<open>get_provider_stats\<close>: \<^verbatim>\<open>search_api_manager\<close>;
  \<^item> \<open>trendfinder_available\<close>, \<open>trendfinder_search\<close>, \<open>supadata_available\<close>,
    \<open>supadata_search\<close>: the two MCP clients;
  \<^item> \<open>search_all_platforms\<close>: \<^verbatim>\<open>social_media_extractor.search_all_platforms\<close>;
  \<^item> \<open>select_top_urls\<close>, \<open>capture_screenshots\<close>: what methods of these names of
    \<^verbatim>\<open>visual_content_capture\<close> would answer;
  \<^item> \<open>write_json\<close>: creating the directory of a path, opening the file and
    \<^verbatim>\<open>json.dump\<close>;
  \<^item> \<open>salvar_etapa_call\<close>, \<open>salvar_erro_call\<close>: whether the helpers of
    \<^verbatim>\<open>services.auto_save_manager\<close> return or raise;
  \<^item> \<open>str_of\<close>: the builtin \<^verbatim>\<open>str\<close>; \<open>clock\<close>, \<open>collection_time\<close>: the time
    (one reading stands for every timestamp of a call) and the measured duration.
\<close>

record collector_world =
  interleaved_search :: "string \<Rightarrow> py_error + pyval"
  trendfinder_available :: "py_error + pyval"
  trendfinder_search :: "string \<Rightarrow> py_error + pyval"
  supadata_available :: "py_error + pyval"
  supadata_search :: "string \<Rightarrow> py_error + pyval"
  search_all_platforms :: "string \<Rightarrow> py_error + pyval"
  select_top_urls :: "pyval \<Rightarrow> py_error + pyval"
  capture_screenshots :: "pyval \<Rightarrow> string \<Rightarrow> py_error + pyval"
  get_provider_stats :: "py_error + pyval"
  write_json :: "string \<Rightarrow> py_error + unit"
  salvar_etapa_call :: "py_error + unit"
  salvar_erro_call :: "py_error + unit"
  str_of :: "pyval \<Rightarrow> string"
  clock :: string
  collection_time :: pyval

text \<open>
  Durable storage as the collector changes it: the JSON files it has written itself,
  in order, and the calls it has made to \<^verbatim>\<open>salvar_etapa\<close> and \<^verbatim>\<open>salvar_erro\<close> with
  their arguments (what those helpers store is their own affair).
\<close>

datatype auto_save =
  SalvarEtapa string pyval
  | SalvarErro string py_error pydict

record storage =
  written :: "(string \<times> pyval) list"
  auto_save_calls :: "auto_save list"

text \<open>
  Phases 2 and 3:
  \<^verbatim>\<open>
  if trendfinder_client.is_available():
      trends_results = await trendfinder_client.search(query)
      massive_data["trends_data"] = trends_results
  else:
      massive_data["trends_data"] = {"success": False, "error": "TrendFinder nao configurado"}
  \<close>
\<close>

definition optional_search ::
  "py_error + pyval \<Rightarrow> (string \<Rightarrow> py_error + pyval) \<Rightarrow> string \<Rightarrow> string \<Rightarrow> py_error + pyval" where
  "optional_search available search query msg =
     (case available of
        Inl e \<Rightarrow> Inl e
      | Inr a \<Rightarrow> if truthy a then search query else Inr (PDict (failure msg)))"

text \<open>
  Phase 4, inside its own \<^verbatim>\<open>try: ... except Exception as social_error\<close>:
  \<^verbatim>\<open>
  social_results_raw = await social_media_extractor.search_all_platforms(query)
  if social_results_raw.get("success"):
      social_results = {"success": True, "all_platforms_data": social_results_raw,
          "total_posts": social_results_raw.get("total_results", 0),
          "platforms_analyzed": len(social_results_raw.get("platforms", {})),
          "extracted_at": datetime.now().isoformat()}
  else:
      social_results = {"success": False, "error": "Falha na extracao de redes sociais",
          "all_platforms_data": {"platforms": {}}, "total_posts": 0}
  \<close>
\<close>

definition social_failure :: "string \<Rightarrow> pydict" where
  "social_failure msg =
     [(''success'', PBool False), (''error'', PStr msg),
      (''all_platforms_data'', PDict [(''platforms'', PDict [])]), (''total_posts'', PInt 0)]"

definition social_extraction :: "collector_world \<Rightarrow> string \<Rightarrow> py_error + pydict" where
  "social_extraction cw query =
     (case search_all_platforms cw query of
        Inl e \<Rightarrow> Inl e
      | Inr social_results_raw \<Rightarrow>
          (case py_get social_results_raw ''success'' PNone of
             Inl e \<Rightarrow> Inl e
           | Inr ok \<Rightarrow>
               if truthy ok then
                 (case py_get social_results_raw ''total_results'' (PInt 0) of
                    Inl e \<Rightarrow> Inl e
                  | Inr posts \<Rightarrow>
                      (case py_get social_results_raw ''platforms'' (PDict []) of
                         Inl e \<Rightarrow> Inl e
                       | Inr platforms \<Rightarrow>
                           (case py_len platforms of
                              Inl e \<Rightarrow> Inl e
                            | Inr n \<Rightarrow>
                                Inr [(''success'', PBool True),
                                     (''all_platforms_data'', social_results_raw),
                                     (''total_posts'', posts), (''platforms_analyzed'', PInt n),
                                     (''extracted_at'', PStr (clock cw))])))
               else Inr (social_failure ''Falha na extracao de redes sociais'')))"

definition social_phase :: "collector_world \<Rightarrow> string \<Rightarrow> pydict" where
  "social_phase cw query =
     (case social_extraction cw query of
        Inl social_error \<Rightarrow> social_failure (str_e social_error)
      | Inr social_data \<Rightarrow> social_data)"

text \<open>
  Phase 5 is not guarded:
  \<^verbatim>\<open>selected_urls = visual_content_capture.select_top_urls(web_results, max_urls=8)\<close>
\<close>

definition url_selection :: "collector_world \<Rightarrow> pyval \<Rightarrow> py_error + pyval" where
  "url_selection cw web_data =
     (case getattr VisualContentCapture_attributes ''select_top_urls'' of
        Inl e \<Rightarrow> Inl e
      | Inr u \<Rightarrow> select_top_urls cw web_data)"

text \<open>
  Phase 6 gives \<^verbatim>\<open>massive_data["visual_content"]\<close>, the screenshot count and
  \<^verbatim>\<open>massive_data["screenshots"]\<close>:
  \<^verbatim>\<open>
  if selected_urls:
      try:
          screenshot_results = await visual_content_capture.capture_screenshots(selected_urls, session_id)
          massive_data["visual_content"] = screenshot_results
          massive_data["statistics"]["screenshot_count"] = screenshot_results.get("successful_captures", 0)
          massive_data["screenshots"] = screenshot_results.get("successful_captures_paths", [])
      except Exception as capture_error:
          massive_data["visual_content"] = {"success": False, "error": str(capture_error)}
          massive_data["statistics"]["screenshot_count"] = 0
  else:
      massive_data["visual_content"] = {"success": False, "error": "Nenhuma URL disponivel"}
  \<close>
\<close>

definition screenshot_capture :: "collector_world \<Rightarrow> pyval \<Rightarrow> string \<Rightarrow> py_error + pyval \<times> pyval \<times> pyval" where
  "screenshot_capture cw selected_urls session_id =
     (case getattr VisualContentCapture_attributes ''capture_screenshots'' of
        Inl e \<Rightarrow> Inl e
      | Inr u \<Rightarrow>
          (case capture_screenshots cw selected_urls session_id of
             Inl e \<Rightarrow> Inl e
           | Inr screenshot_results \<Rightarrow>
               (case py_get screenshot_results ''successful_captures'' (PInt 0) of
                  Inl e \<Rightarrow> Inl e
                | Inr n \<Rightarrow>
                    (case py_get screenshot_results ''successful_captures_paths'' (PList []) of
                       Inl e \<Rightarrow> Inl e
                     | Inr paths \<Rightarrow> Inr (screenshot_results, n, paths)))))"

definition screenshot_phase :: "collector_world \<Rightarrow> pyval \<Rightarrow> string \<Rightarrow> pyval \<times> pyval \<times> pyval" where
  "screenshot_phase cw selected_urls session_id =
     (if truthy selected_urls then
        (case screenshot_capture cw selected_urls session_id of
           Inl capture_error \<Rightarrow> (PDict (failure (str_e capture_error)), PInt 0, PList [])
         | Inr r \<Rightarrow> r)
      else (PDict (failure ''Nenhuma URL disponivel''), PInt 0, PList []))"

text \<open>
  Phase 7 gathers the extracted content. From the web search:
  \<^verbatim>\<open>
  if web_results.get("all_results"):
      for provider_result in web_results["all_results"]:
          if provider_result.get("success") and provider_result.get("results"):
              all_extracted_content.extend(provider_result["results"])
  \<close>
\<close>

definition provider_content :: "pyval \<Rightarrow> py_error + pyval list" where
  "provider_content provider_result =
     (case py_get provider_result ''success'' PNone of
        Inl e \<Rightarrow> Inl e
      | Inr ok \<Rightarrow>
          if truthy ok then
            (case py_get provider_result ''results'' PNone of
               Inl e \<Rightarrow> Inl e
             | Inr rs \<Rightarrow> if truthy rs then py_iter rs else Inr [])
          else Inr [])"

definition concat_err :: "('a \<Rightarrow> py_error + 'b list) \<Rightarrow> 'a list \<Rightarrow> py_error + 'b list" where
  "concat_err f xs = (case map_err f xs of Inl e \<Rightarrow> Inl e | Inr yss \<Rightarrow> Inr (concat yss))"

definition web_content :: "pyval \<Rightarrow> py_error + pyval list" where
  "web_content web_data =
     (case py_get web_data ''all_results'' PNone of
        Inl e \<Rightarrow> Inl e
      | Inr all_results \<Rightarrow>
          if truthy all_results then
            (case py_iter all_results of
               Inl e \<Rightarrow> Inl e
             | Inr provider_results \<Rightarrow> concat_err provider_content provider_results)
          else Inr [])"

text \<open>
  From the social extraction:
  \<^verbatim>\<open>
  if social_results.get("all_platforms_data"):
      platforms = social_results["all_platforms_data"].get("platforms", {})
      if isinstance(platforms, dict):
          for platform, data in platforms.items():
              if isinstance(data, dict) and "results" in data:
                  all_extracted_content.extend(data["results"])
      elif isinstance(platforms, list):
          for platform_data in platforms:
              if isinstance(platform_data, dict) and "results" in platform_data:
                  all_extracted_content.extend(platform_data["results"])
              elif isinstance(platform_data, dict) and "platform" in platform_data:
                  platform_results = platform_data.get("data", {}).get("results", [])
                  all_extracted_content.extend(platform_results)
  \<close>
\<close>

definition platform_content :: "pyval \<Rightarrow> py_error + pyval list" where
  "platform_content data =
     (case data of
        PDict d \<Rightarrow> (case map_of d ''results'' of None \<Rightarrow> Inr [] | Some rs \<Rightarrow> py_iter rs)
      | _ \<Rightarrow> Inr [])"

definition platform_entry_content :: "pyval \<Rightarrow> py_error + pyval list" where
  "platform_entry_content platform_data =
     (case platform_data of
        PDict d \<Rightarrow>
          (case map_of d ''results'' of
             Some rs \<Rightarrow> py_iter rs
           | None \<Rightarrow>
               if map_of d ''platform'' \<noteq> None then
                 (case py_get (dict_get d ''data'' (PDict [])) ''results'' (PList []) of
                    Inl e \<Rightarrow> Inl e
                  | Inr platform_results \<Rightarrow> py_iter platform_results)
               else Inr [])
      | _ \<Rightarrow> Inr [])"

definition social_content :: "pydict \<Rightarrow> py_error + pyval list" where
  "social_content social_data =
     (if truthy (dict_get social_data ''all_platforms_data'' PNone) then
        (case py_get (dict_get social_data ''all_platforms_data'' PNone) ''platforms'' (PDict []) of
           Inl e \<Rightarrow> Inl e
         | Inr platforms \<Rightarrow>
             (case platforms of
                PDict ps \<Rightarrow> concat_err platform_content (map snd ps)
              | PList pl \<Rightarrow> concat_err platform_entry_content pl
              | _ \<Rightarrow> Inr []))
      else Inr [])"

text \<open>
  From the trends and from Supadata:
  \<^verbatim>\<open>
  if massive_data["trends_data"].get("success"):
      trends = massive_data["trends_data"].get("trends", [])
      all_extracted_content.extend([{"source": "TrendFinder", "content": trend} for trend in trends])
  \<close>
\<close>

definition tagged_content :: "string \<Rightarrow> string \<Rightarrow> pyval \<Rightarrow> py_error + pyval list" where
  "tagged_content source list_key data =
     (case py_get data ''success'' PNone of
        Inl e \<Rightarrow> Inl e
      | Inr ok \<Rightarrow>
          if truthy ok then
            (case py_get data list_key (PList []) of
               Inl e \<Rightarrow> Inl e
             | Inr xs \<Rightarrow>
                 (case py_iter xs of
                    Inl e \<Rightarrow> Inl e
                  | Inr items \<Rightarrow>
                      Inr (map (\<lambda>x. PDict [(''source'', PStr source), (''content'', x)]) items)))
          else Inr [])"

definition extracted_content ::
  "pyval \<Rightarrow> pydict \<Rightarrow> pyval \<Rightarrow> pyval \<Rightarrow> py_error + pyval list" where
  "extracted_content web_data social_data trends_data supadata_data =
     (case web_content web_data of
        Inl e \<Rightarrow> Inl e
      | Inr a \<Rightarrow>
          (case social_content social_data of
             Inl e \<Rightarrow> Inl e
           | Inr b \<Rightarrow>
               (case tagged_content ''TrendFinder'' ''trends'' trends_data of
                  Inl e \<Rightarrow> Inl e
                | Inr c \<Rightarrow>
                    (case tagged_content ''Supadata'' ''posts'' supadata_data of
                       Inl e \<Rightarrow> Inl e
                     | Inr d \<Rightarrow> Inr (a @ b @ c @ d)))))"

text \<open>
  \<^verbatim>\<open>_count_social_results\<close> counts the same results; its body is inside
  \<^verbatim>\<open>try: ... except Exception: return 0\<close>. In the list case an entry without
  \<^verbatim>\<open>results\<close> counts the results of its \<^verbatim>\<open>data\<close>, when that is a dict.
\<close>

definition platform_count :: "pyval \<Rightarrow> py_error + int" where
  "platform_count data =
     (case data of
        PDict d \<Rightarrow> (case map_of d ''results'' of None \<Rightarrow> Inr 0 | Some rs \<Rightarrow> py_len rs)
      | _ \<Rightarrow> Inr 0)"

definition platform_entry_count :: "pyval \<Rightarrow> py_error + int" where
  "platform_entry_count platform_data =
     (case platform_data of
        PDict d \<Rightarrow>
          (case map_of d ''results'' of
             Some rs \<Rightarrow> py_len rs
           | None \<Rightarrow>
               (case map_of d ''data'' of
                  Some (PDict dd) \<Rightarrow> py_len (dict_get dd ''results'' (PList []))
                | _ \<Rightarrow> Inr 0))
      | _ \<Rightarrow> Inr 0)"

definition count_social_results :: "pydict \<Rightarrow> int" where
  "count_social_results social_data =
     (case (case py_get (dict_get social_data ''all_platforms_data'' (PDict [])) ''platforms'' (PDict []) of
              Inl e \<Rightarrow> Inl e
            | Inr platforms \<Rightarrow>
                (case platforms of
                   PDict ps \<Rightarrow> map_err platform_count (map snd ps)
                 | PList pl \<Rightarrow> map_err platform_entry_count pl
                 | _ \<Rightarrow> Inr [])) of
        Inl e \<Rightarrow> 0
      | Inr counts \<Rightarrow> sum_list counts)"

text \<open>
  The statistics and the consolidated document \<^verbatim>\<open>massive_data\<close>:
  \<^verbatim>\<open>
  total_sources = len(all_extracted_content)
  total_content = sum(len(str(item)) for item in all_extracted_content)
  sources_by_type = {
      "web_search_intercalado": web_results.get("successful_searches", 0),
      "social_media_fallback": self._count_social_results(social_results),
      "trendfinder_mcp": len(massive_data["trends_data"].get("trends", [])),
      "supadata_mcp": massive_data["supadata_results"].get("total_results", 0),
      "screenshots": massive_data["statistics"]["screenshot_count"]}
  massive_data["statistics"].update({..., "api_rotations": search_api_manager.get_provider_stats()})
  \<close>
\<close>

definition str_len :: "collector_world \<Rightarrow> pyval \<Rightarrow> int" where
  "str_len cw item = int (length (case item of PStr s \<Rightarrow> s | _ \<Rightarrow> str_of cw item))"

definition sources_by_type ::
  "pyval \<Rightarrow> pydict \<Rightarrow> pyval \<Rightarrow> pyval \<Rightarrow> pyval \<Rightarrow> py_error + pydict" where
  "sources_by_type web_data social_data trends_data supadata_data screenshot_count =
     (case py_get web_data ''successful_searches'' (PInt 0) of
        Inl e \<Rightarrow> Inl e
      | Inr searches \<Rightarrow>
          (case py_get trends_data ''trends'' (PList []) of
             Inl e \<Rightarrow> Inl e
           | Inr trends \<Rightarrow>
               (case py_len trends of
                  Inl e \<Rightarrow> Inl e
                | Inr n \<Rightarrow>
                    (case py_get supadata_data ''total_results'' (PInt 0) of
                       Inl e \<Rightarrow> Inl e
                     | Inr posts \<Rightarrow>
                         Inr [(''web_search_intercalado'', searches),
                              (''social_media_fallback'', PInt (count_social_results social_data)),
                              (''trendfinder_mcp'', PInt n), (''supadata_mcp'', posts),
                              (''screenshots'', screenshot_count)]))))"

definition consolidate ::
  "collector_world \<Rightarrow> string \<Rightarrow> pyval \<Rightarrow> string \<Rightarrow> pyval \<Rightarrow> pyval \<Rightarrow> pyval \<Rightarrow> pydict
     \<Rightarrow> pyval \<times> pyval \<times> pyval \<Rightarrow> py_error + pydict" where
  "consolidate cw query context session_id web_data trends_data supadata_data social_data shots =
     (case shots of
        (visual_content, screenshot_count, screenshots) \<Rightarrow>
          (case extracted_content web_data social_data trends_data supadata_data of
             Inl e \<Rightarrow> Inl e
           | Inr all_extracted_content \<Rightarrow>
               (case sources_by_type web_data social_data trends_data supadata_data screenshot_count of
                  Inl e \<Rightarrow> Inl e
                | Inr by_type \<Rightarrow>
                    (case get_provider_stats cw of
                       Inl e \<Rightarrow> Inl e
                     | Inr rotations \<Rightarrow>
                         Inr [(''session_id'', PStr session_id), (''query'', PStr query),
                              (''context'', context), (''collection_started'', PStr (clock cw)),
                              (''web_search_data'', web_data),
                              (''social_media_data'', PDict social_data),
                              (''trends_data'', trends_data),
                              (''supadata_results'', supadata_data),
                              (''visual_content'', visual_content),
                              (''extracted_content'', PList all_extracted_content),
                              (''screenshots'', screenshots),
                              (''statistics'',
                               PDict [(''total_sources'', PInt (int (length all_extracted_content))),
                                      (''total_content_length'',
                                       PInt (sum_list (map (str_len cw) all_extracted_content))),
                                      (''collection_time'', collection_time cw),
                                      (''sources_by_type'', PDict by_type),
                                      (''screenshot_count'', screenshot_count),
                                      (''api_rotations'', rotations)])]))))"

text \<open>
  \<^verbatim>\<open>_generate_collection_report\<close> builds a summary from the document and writes it
  to a second file.
  \<^verbatim>\<open>
  "visual_content_summary": {
      "screenshot_count": massive_data.get("statistics", {}).get("screenshot_count", 0),
      "screenshot_paths": massive_data.get("visual_content", {}).get("successful_captures_paths", [])},
  "data_sources_summary": {
      "web_search": massive_data.get("web_search_data", {}).get("statistics", {}).get("total_results", 0),
      "social_media": massive_data.get("social_media_data", {}).get("total_posts", 0),
      "trends": len(massive_data.get("trends_data", {}).get("trends", [])),
      "supadata": massive_data.get("supadata_results", {}).get("total_results", 0)}
  \<close>
\<close>

definition get2 :: "pydict \<Rightarrow> string \<Rightarrow> string \<Rightarrow> pyval \<Rightarrow> py_error + pyval" where
  "get2 d k1 k2 dflt = py_get (dict_get d k1 (PDict [])) k2 dflt"

definition visual_content_summary :: "pydict \<Rightarrow> py_error + pydict" where
  "visual_content_summary massive_data =
     (case get2 massive_data ''statistics'' ''screenshot_count'' (PInt 0) of
        Inl e \<Rightarrow> Inl e
      | Inr n \<Rightarrow>
          (case get2 massive_data ''visual_content'' ''successful_captures_paths'' (PList []) of
             Inl e \<Rightarrow> Inl e
           | Inr paths \<Rightarrow> Inr [(''screenshot_count'', n), (''screenshot_paths'', paths)]))"

definition data_sources_summary :: "pydict \<Rightarrow> py_error + pydict" where
  "data_sources_summary massive_data =
     (case get2 massive_data ''web_search_data'' ''statistics'' (PDict []) of
        Inl e \<Rightarrow> Inl e
      | Inr web_statistics \<Rightarrow>
          (case py_get web_statistics ''total_results'' (PInt 0) of
             Inl e \<Rightarrow> Inl e
           | Inr web_search \<Rightarrow>
               (case get2 massive_data ''social_media_data'' ''total_posts'' (PInt 0) of
                  Inl e \<Rightarrow> Inl e
                | Inr social_media \<Rightarrow>
                    (case get2 massive_data ''trends_data'' ''trends'' (PList []) of
                       Inl e \<Rightarrow> Inl e
                     | Inr trends \<Rightarrow>
                         (case py_len trends of
                            Inl e \<Rightarrow> Inl e
                          | Inr n \<Rightarrow>
                              (case get2 massive_data ''supadata_results'' ''total_results'' (PInt 0) of
                                 Inl e \<Rightarrow> Inl e
                               | Inr supadata \<Rightarrow>
                                   Inr [(''web_search'', web_search), (''social_media'', social_media),
                                        (''trends'', PInt n), (''supadata'', supadata)]))))))"

definition collection_report :: "collector_world \<Rightarrow> pydict \<Rightarrow> string \<Rightarrow> py_error + pydict" where
  "collection_report cw massive_data session_id =
     (case visual_content_summary massive_data of
        Inl e \<Rightarrow> Inl e
      | Inr visual \<Rightarrow>
          (case data_sources_summary massive_data of
             Inl e \<Rightarrow> Inl e
           | Inr sources \<Rightarrow>
               Inr [(''title'', PStr ''Relatorio Detalhado de Coleta de Dados''),
                    (''session_id'', PStr session_id),
                    (''query'', dict_get massive_data ''query'' (PStr ''N/A'')),
                    (''timestamp'', PStr (clock cw)),
                    (''statistics'', dict_get massive_data ''statistics'' (PDict [])),
                    (''visual_content_summary'', PDict visual),
                    (''data_sources_summary'', PDict sources),
                    (''notes'', PStr ''Este relatorio resume os dados coletados.'')]))"

definition session_document_path :: "string \<Rightarrow> string" where
  "session_document_path session_id =
     ''analyses_data/'' @ session_id @ ''/massive_data_collected.json''"

definition report_path :: "string \<Rightarrow> string" where
  "report_path session_id = ''analyses_data/'' @ session_id @ ''/relatorio_coleta_detalhado.json''"

definition generate_collection_report ::
  "collector_world \<Rightarrow> storage \<Rightarrow> pydict \<Rightarrow> string \<Rightarrow> (py_error + pydict) \<times> storage" where
  "generate_collection_report cw st massive_data session_id =
     (case collection_report cw massive_data session_id of
        Inl e \<Rightarrow> (Inl e, st)
      | Inr report \<Rightarrow>
          (case write_json cw (report_path session_id) of
             Inl e \<Rightarrow> (Inl e, st)
           | Inr u \<Rightarrow>
               (Inr report, st\<lparr>written := written st @ [(report_path session_id, PDict report)]\<rparr>)))"

text \<open>
  The end of the \<^verbatim>\<open>try\<close> block writes the document, then the report, then calls
  \<^verbatim>\<open>salvar_etapa\<close>, and returns the document:
  \<^verbatim>\<open>
  session_dir = Path(f"analyses_data/{session_id}")
  session_dir.mkdir(parents=True, exist_ok=True)
  massive_data_path = session_dir / "massive_data_collected.json"
  with open(massive_data_path, "w", encoding="utf-8") as f:
      json.dump(massive_data, f, ensure_ascii=False, indent=2)
  collection_report = await self._generate_collection_report(massive_data, session_id)
  salvar_etapa("massive_data_collected", massive_data, categoria="coleta_massiva", session_id=session_id)
  return massive_data
  \<close>
\<close>

definition persist ::
  "collector_world \<Rightarrow> storage \<Rightarrow> pydict \<Rightarrow> string \<Rightarrow> (py_error + pydict) \<times> storage" where
  "persist cw st massive_data session_id =
     (case write_json cw (session_document_path session_id) of
        Inl e \<Rightarrow> (Inl e, st)
      | Inr u \<Rightarrow>
          (case generate_collection_report cw
                  (st\<lparr>written := written st @ [(session_document_path session_id, PDict massive_data)]\<rparr>)
                  massive_data session_id of
             (Inl e, st2) \<Rightarrow> (Inl e, st2)
           | (Inr report, st2) \<Rightarrow>
               (case salvar_etapa_call cw of
                  Inl e \<Rightarrow>
                    (Inl e, st2\<lparr>auto_save_calls := auto_save_calls st2
                                  @ [SalvarEtapa ''massive_data_collected'' (PDict massive_data)]\<rparr>)
                | Inr u \<Rightarrow>
                    (Inr massive_data,
                     st2\<lparr>auto_save_calls := auto_save_calls st2
                            @ [SalvarEtapa ''massive_data_collected'' (PDict massive_data)]\<rparr>))))"

text \<open>
  Phases 1 to 7 up to the consolidated document. Phases 1, 2, 3 and 5 and the
  consolidation have no handler of their own; phases 4 and 6 have.
\<close>

definition collect :: "collector_world \<Rightarrow> string \<Rightarrow> pyval \<Rightarrow> string \<Rightarrow> py_error + pydict" where
  "collect cw query context session_id =
     (case interleaved_search cw query of
        Inl e \<Rightarrow> Inl e
      | Inr web_data \<Rightarrow>
          (case optional_search (trendfinder_available cw) (trendfinder_search cw) query
                  ''TrendFinder nao configurado'' of
             Inl e \<Rightarrow> Inl e
           | Inr trends_data \<Rightarrow>
               (case optional_search (supadata_available cw) (supadata_search cw) query
                       ''Supadata nao configurado'' of
                  Inl e \<Rightarrow> Inl e
                | Inr supadata_data \<Rightarrow>
                    (case url_selection cw web_data of
                       Inl e \<Rightarrow> Inl e
                     | Inr selected_urls \<Rightarrow>
                         consolidate cw query context session_id web_data trends_data supadata_data
                           (social_phase cw query)
                           (screenshot_phase cw selected_urls session_id)))))"

text \<open>
  \<^verbatim>\<open>
  async def execute_massive_collection(self, query, context, session_id):
      ...
      try:
          ...
          return massive_data
      except Exception as e:
          logger.error(...)
          salvar_erro("massive_data_collection", e, contexto={"query": query, "session_id": session_id})
          return {"error": "Falha na coleta massiva de dados", "details": str(e)}
  \<close>
\<close>

definition collection_error :: "py_error \<Rightarrow> pydict" where
  "collection_error e =
     [(''error'', PStr ''Falha na coleta massiva de dados''), (''details'', PStr (str_e e))]"

definition execute_massive_collection ::
  "collector_world \<Rightarrow> storage \<Rightarrow> string \<Rightarrow> pyval \<Rightarrow> string \<Rightarrow> (py_error + pydict) \<times> storage" where
  "execute_massive_collection cw st query context session_id =
     (case (case collect cw query context session_id of
              Inl e \<Rightarrow> (Inl e, st)
            | Inr massive_data \<Rightarrow> persist cw st massive_data session_id) of
        (Inr massive_data, st1) \<Rightarrow> (Inr massive_data, st1)
      | (Inl e, st1) \<Rightarrow>
          (case salvar_erro_call cw of
             Inl e' \<Rightarrow>
               (Inl e',
                st1\<lparr>auto_save_calls := auto_save_calls st1
                       @ [SalvarErro ''massive_data_collection'' e
                            [(''query'', PStr query), (''session_id'', PStr session_id)]]\<rparr>)
           | Inr u \<Rightarrow>
               (Inr (collection_error e),
                st1\<lparr>auto_save_calls := auto_save_calls st1
                       @ [SalvarErro ''massive_data_collection'' e
                            [(''query'', PStr query), (''session_id'', PStr session_id)]]\<rparr>)))"

section \<open>Concrete inputs\<close>


text \<open>
  \<^verbatim>\<open>str.lower\<close> on strings of characters with code points below 256, which are
  the characters of this type: the letters A to Z and the letters from 192 to 222
  other than the multiplication sign 215 move up by 32, every other character stays.
\<close>

definition lower_char :: "char \<Rightarrow> char" where
  "lower_char c =
     (let n = (of_char c :: nat)
      in if (65 \<le> n \<and> n \<le> 90) \<or> (192 \<le> n \<and> n \<le> 222 \<and> n \<noteq> 215)
         then char_of (n + 32) else c)"

definition lower_latin1 :: "string \<Rightarrow> string" where
  "lower_latin1 s = map lower_char s"

text \<open>
  A world in which Google and Exa both answer with one record for the same address,
  every other request times out, and the analytics engine finds no data. Of
  \<^verbatim>\<open>urlparse\<close> it gives the network location of two addresses.
\<close>

definition google_answer :: pyval where
  "google_answer =
     PDict [(''items'', PList [PDict [(''title'', PStr ''Energy drinks''),
                                      (''link'', PStr ''https://example.com/a''),
                                      (''snippet'', PStr ''from google'')]])]"

definition exa_answer :: pyval where
  "exa_answer =
     PDict [(''results'', PList [PDict [(''title'', PStr ''Energy drinks''),
                                        (''url'', PStr ''https://example.com/a''),
                                        (''text'', PStr ''from exa'')]])]"

definition world_dup :: world where
  "world_dup =
     \<lparr>http = (\<lambda>url key.
               if url = ''https://www.googleapis.com/customsearch/v1''
               then Inr (HttpResponse 200 (Inr google_answer) (Inr []))
               else if url = ''https://api.exa.ai/search''
               then Inr (HttpResponse 200 (Inr exa_answer) (Inr []))
               else Inl (Exn OtherException ''timeout'')),
      getenv = (\<lambda>name. if name = ''GOOGLE_CSE_ID'' then Some ''cx'' else None),
      quote_plus = (\<lambda>q. q),
      py_str = (\<lambda>v. []),
      urlparse_netloc = (\<lambda>url.
               if url = ''https://g1.globo.com/economia'' then Inr ''g1.globo.com''
               else if url = ''https://example.com/a'' then Inr ''example.com''
               else Inl (Exn ValueError ''Invalid URL'')),
      str_lower = lower_latin1,
      findall_links = (\<lambda>c. []),
      findall_urls = (\<lambda>c. []),
      websailor_executed = Inr (),
      websailor_enabled = True,
      websailor_research = Inr PNone,
      visual_capture_executed = Inr (),
      capture_async = (\<lambda>url session_id. Inr PNone),
      engine_analysis = (\<lambda>session_id. Inl (Exn FileNotFoundError ''no data'')),
      salvar_etapa_ok = Inr (),
      salvar_erro_ok = Inr (),
      now = ''2025-01-01T00:00:00'',
      elapsed = PInt 0\<rparr>"

definition pool_dup :: orchestrator where
  "pool_dup = init_orchestrator (Map.empty(''GOOGLE'' \<mapsto> [''g1''], ''EXA'' \<mapsto> [''e1'']))"

definition pool_none :: orchestrator where
  "pool_none = init_orchestrator Map.empty"

text \<open>The documents the orchestrator returns in that world, with two providers and with none.\<close>

definition doc_dup :: pydict where
  "doc_dup =
     [(''query'', PStr ''energy drinks''), (''session_id'', PStr ''s1''),
      (''search_started'', PStr ''2025-01-01T00:00:00''),
      (''providers_used'', PList [PStr ''GOOGLE'', PStr ''EXA'']),
      (''web_results'',
       PList [PDict [(''title'', PStr ''Energy drinks''), (''url'', PStr ''https://example.com/a''),
                     (''snippet'', PStr ''from google''), (''source'', PStr ''google'')],
              PDict [(''title'', PStr ''Energy drinks''), (''url'', PStr ''https://example.com/a''),
                     (''snippet'', PStr ''from exa''), (''source'', PStr ''exa'')]]),
      (''social_results'', PList []), (''youtube_results'', PList []),
      (''viral_content'', PList []), (''screenshots_captured'', PList []),
      (''statistics'',
       PDict [(''total_sources'', PInt 2), (''unique_urls'', PInt 1),
              (''content_extracted'', PInt 0), (''api_calls_made'', PInt 2),
              (''search_duration'', PInt 0)]),
      (''predictive_insights'',
       PDict [(''success'', PBool False), (''error'', PStr ''no data'')])]"

definition doc_none :: pydict where
  "doc_none =
     [(''query'', PStr ''energy drinks''), (''session_id'', PStr ''s1''),
      (''search_started'', PStr ''2025-01-01T00:00:00''),
      (''providers_used'', PList []), (''web_results'', PList []),
      (''social_results'', PList []), (''youtube_results'', PList []),
      (''viral_content'', PList []), (''screenshots_captured'', PList []),
      (''statistics'',
       PDict [(''total_sources'', PInt 0), (''unique_urls'', PInt 0),
              (''content_extracted'', PInt 0), (''api_calls_made'', PInt 0),
              (''search_duration'', PInt 0)]),
      (''predictive_insights'',
       PDict [(''success'', PBool False), (''error'', PStr ''no data'')])]"

text \<open>A social record with 1500 likes, 10 comments and no shares.\<close>

definition social_record :: pydict where
  "social_record =
     [(''title'', PStr ''clip''), (''url'', PStr ''https://social.example/p/1''),
      (''likes'', PInt 1500), (''comments'', PInt 10), (''shares'', PInt 0)]"

definition viral_example :: "pyval list" where
  "viral_example = [PDict social_record]"

text \<open>A context with one keyword.\<close>

definition keyword_context :: pydict where
  "keyword_context = [(''keywords'', PList [PStr ''Energy''])]"

text \<open>A browser with which every step of a capture succeeds.\<close>

definition browser_ok :: browser where
  "browser_ok =
     \<lparr>full_check = Inr (PDict [(''selenium_ready'', PBool True),
                                (''best_chrome_path'', PStr ''/usr/bin/chromium'')]),
      manager_driver = Inr (),
      system_driver = Inr (),
      set_timeout = Inr (),
      page_get = (\<lambda>url. Inr ()),
      wait_body = Inr (),
      page_title = Inr (PStr ''Clip''),
      page_current_url = Inr (PStr ''https://social.example/p/1''),
      meta_content = Inl (Exn OtherException ''no such element''),
      mkdir_parent = (\<lambda>path. Inr ()),
      save_screenshot = (\<lambda>path. Inr (Some 2048)),
      timestamp = ''2025-01-01T00:00:05''\<rparr>"

text \<open>The same browser when \<^verbatim>\<open>driver.get\<close> raises.\<close>

definition browser_offline :: browser where
  "browser_offline =
     browser_ok\<lparr>page_get := (\<lambda>url. Inl (Exn OtherException ''net::ERR_NAME_NOT_RESOLVED''))\<rparr>"

text \<open>Two requests for the same address and the same file, one after the other.\<close>

definition first_capture :: "pydict \<times> capturer" where
  "first_capture =
     capture_screenshot browser_ok new_capturer ''https://social.example/p/1''
       ''analyses_data/files/s1/p1.png''"

definition second_capture :: "pydict \<times> capturer" where
  "second_capture =
     capture_screenshot browser_ok (snd first_capture) ''https://social.example/p/1''
       ''analyses_data/files/s1/p1.png''"



section \<open>Credential rotation is round-robin\<close>







section \<open>What the adapters return\<close>

lemma re_unbound: "load_global orchestrator_globals ''re'' = Inl (Exn NameError ''name is not defined: re'')"
  by (simp add: load_global_def orchestrator_globals_def)

lemma extract_raises:
  "extract_search_results_from_content w content source = Inl (Exn NameError ''name is not defined: re'')"
  by (simp add: extract_search_results_from_content_def re_unbound)

lemma firecrawl_ok_raises: "\<exists>e. firecrawl_ok w response = Inl e"
  by (simp add: firecrawl_ok_def extract_raises split: sum.splits)

lemma firecrawl_ok_never: "firecrawl_ok w response \<noteq> Inr r"
  using firecrawl_ok_raises[of w response] by auto

lemma search_firecrawl_fails: "\<exists>msg. fst (search_firecrawl w s query) = failure msg"
  by (auto simp: search_firecrawl_def firecrawl_ok_never split: sum.splits option.splits prod.splits)

lemma jina_page_empty: "jina_page w api_key search_url = []"
  by (simp add: jina_page_def extract_raises split: sum.splits)

lemma search_jina_shape:
  "(\<exists>msg. fst (search_jina w s query) = failure msg)
   \<or> fst (search_jina w s query) =
       [(''success'', PBool True), (''provider'', PStr ''JINA''), (''results'', PList [])]"
  by (auto simp: search_jina_def jina_page_empty jina_search_urls_def split: sum.splits option.splits prod.splits)

lemma websailor_unbound:
  "\<exists>e. import_from executed alibaba_websailor_globals ''alibaba_websailor'' = Inl e"
  by (simp add: import_from_def alibaba_websailor_globals_def split: sum.splits)

lemma search_alibaba_websailor_fails: "\<exists>msg. search_alibaba_websailor w query context = failure msg"
  using websailor_unbound[of "websailor_executed w"]
  by (auto simp: search_alibaba_websailor_def)

lemma capture_item_empty: "capture_item w session_id (PDict d) = Inr []"
  by (simp add: capture_item_def py_get_def getattr_def VisualContentCapture_attributes_def)

lemma capture_item_cases: "capture_item w session_id item = Inr [] \<or> (\<exists>e. capture_item w session_id item = Inl e)"
  by (cases item) (simp_all add: capture_item_empty, simp_all add: capture_item_def py_get_def)


lemma failure_not_success: "\<not> truthy (dict_get (failure msg) ''success'' PNone)"
  by (simp add: failure_def dict_get_def)

lemma fase1_skips: "fase1 w query context sr = Inr sr"
proof -
  obtain msg where "search_alibaba_websailor w query context = failure msg"
    using search_alibaba_websailor_fails by blast
  then show ?thesis by (simp add: fase1_def failure_not_success)
qed

lemma provider_failure: "provider_of (failure msg) = PStr ''unknown''"
  by (simp add: provider_of_def failure_def dict_get_def)

lemma provider_firecrawl: "provider_of (fst (search_firecrawl w s query)) \<noteq> PStr ''ALIBABA_WEBSAILOR''"
  using search_firecrawl_fails[of w s query] by (auto simp: provider_failure)

lemma provider_jina: "provider_of (fst (search_jina w s query)) \<noteq> PStr ''ALIBABA_WEBSAILOR''"
  using search_jina_shape[of w s query]
  by (auto simp: provider_failure) (simp add: provider_of_def dict_get_def)

lemma provider_google: "provider_of (fst (search_google w s query)) \<noteq> PStr ''ALIBABA_WEBSAILOR''"
  by (auto simp: search_google_def provider_failure split: sum.splits option.splits prod.splits)
     (simp_all add: provider_of_def dict_get_def)

lemma provider_exa: "provider_of (fst (search_exa w s query)) \<noteq> PStr ''ALIBABA_WEBSAILOR''"
  by (auto simp: search_exa_def provider_failure split: sum.splits option.splits prod.splits)
     (simp_all add: provider_of_def dict_get_def)

lemma provider_serper: "provider_of (fst (search_serper w s query)) \<noteq> PStr ''ALIBABA_WEBSAILOR''"
  by (auto simp: search_serper_def provider_failure split: sum.splits option.splits prod.splits)
     (simp_all add: provider_of_def dict_get_def)

lemma web_tasks_members:
  "task \<in> set (web_tasks s) \<Longrightarrow>
     task \<in> {search_firecrawl, search_jina, search_google, search_exa, search_serper}"
  by (auto simp: web_tasks_def split: if_splits)

lemma gather_results:
  "(\<And>task w s. task \<in> set tasks \<Longrightarrow> P (fst (task w s query))) \<Longrightarrow>
     r \<in> set (fst (gather tasks w s query)) \<Longrightarrow> P r"
proof (induction tasks arbitrary: s r)
  case Nil
  then show ?case by simp
next
  case (Cons task tasks)
  obtain result s1 where t: "task w s query = (result, s1)" by (cases "task w s query")
  obtain results s2 where g: "gather tasks w s1 query = (results, s2)"
    by (cases "gather tasks w s1 query")
  have "P result" using Cons.prems(1)[of task w s] t by simp
  moreover have "\<And>x. x \<in> set results \<Longrightarrow> P x"
    using Cons.IH[of _ s1] Cons.prems(1) g by simp
  ultimately show ?case using Cons.prems(2) t g by auto
qed

lemma web_results_provider:
  assumes "r \<in> set (fst (gather (web_tasks s) w s' query))"
  shows "provider_of r \<noteq> PStr ''ALIBABA_WEBSAILOR''"
proof (rule gather_results[where P = "\<lambda>r. provider_of r \<noteq> PStr ''ALIBABA_WEBSAILOR''", OF _ assms])
  fix task w s0 assume "task \<in> set (web_tasks s)"
  then have "task \<in> {search_firecrawl, search_jina, search_google, search_exa, search_serper}"
    by (rule web_tasks_members)
  then show "provider_of (fst (task w s0 query)) \<noteq> PStr ''ALIBABA_WEBSAILOR''"
    using provider_firecrawl provider_jina provider_google provider_exa provider_serper by auto
qed

lemma merge_web_providers:
  "merge_web_result r sr = Inr sr' \<Longrightarrow>
     set (providers_used sr') \<subseteq> insert (provider_of r) (set (providers_used sr))"
  by (auto simp: merge_web_result_def provider_of_def split: if_splits sum.splits)

lemma fold_merge_web_providers:
  "fold_err merge_web_result rs sr = Inr sr' \<Longrightarrow>
     set (providers_used sr') \<subseteq> provider_of ` set rs \<union> set (providers_used sr)"
proof (induction rs arbitrary: sr)
  case Nil
  then show ?case by simp
next
  case (Cons r rs)
  then obtain sr1 where m: "merge_web_result r sr = Inr sr1" and f: "fold_err merge_web_result rs sr1 = Inr sr'"
    by (auto split: sum.splits)
  from Cons.IH[OF f] merge_web_providers[OF m] show ?case by auto
qed

lemma merge_social_providers:
  "merge_social_result r sr = Inr sr' \<Longrightarrow> providers_used sr' = providers_used sr"
  by (auto simp: merge_social_result_def split: if_splits sum.splits)

lemma fold_merge_social_providers:
  "fold_err merge_social_result rs sr = Inr sr' \<Longrightarrow> providers_used sr' = providers_used sr"
proof (induction rs arbitrary: sr)
  case Nil
  then show ?case by simp
next
  case (Cons r rs)
  then obtain sr1 where m: "merge_social_result r sr = Inr sr1" and f: "fold_err merge_social_result rs sr1 = Inr sr'"
    by (auto split: sum.splits)
  from Cons.IH[OF f] merge_social_providers[OF m] show ?case by simp
qed

lemma search_phases_providers:
  assumes "search_phases w s query context = (Inr sr, s')"
  shows "PStr ''ALIBABA_WEBSAILOR'' \<notin> set (providers_used sr)"
proof -
  let ?sr0 = "\<lparr>providers_used = [], web_results = [], social_results = [], youtube_results = []\<rparr>"
  obtain web s1 where g1: "gather (web_tasks s) w s query = (web, s1)"
    by (cases "gather (web_tasks s) w s query")
  obtain social s2 where g2: "gather (social_tasks s1) w s1 query = (social, s2)"
    by (cases "gather (social_tasks s1) w s1 query")
  from assms obtain sr2 where m1: "fold_err merge_web_result web ?sr0 = Inr sr2"
    and m2: "fold_err merge_social_result social sr2 = Inr sr"
    by (auto simp: search_phases_def fase1_skips g1 g2 split: sum.splits)
  have "set (providers_used sr2) \<subseteq> provider_of ` set web"
    using fold_merge_web_providers[OF m1] by simp
  moreover have "\<And>r. r \<in> set web \<Longrightarrow> provider_of r \<noteq> PStr ''ALIBABA_WEBSAILOR''"
    using web_results_provider[of _ s w s query] g1 by simp
  ultimately have "PStr ''ALIBABA_WEBSAILOR'' \<notin> set (providers_used sr2)"
  proof -
    assume sub: "set (providers_used sr2) \<subseteq> provider_of ` set web"
      and ne: "\<And>r. r \<in> set web \<Longrightarrow> provider_of r \<noteq> PStr ''ALIBABA_WEBSAILOR''"
    show ?thesis
    proof
      assume "PStr ''ALIBABA_WEBSAILOR'' \<in> set (providers_used sr2)"
      then have "PStr ''ALIBABA_WEBSAILOR'' \<in> provider_of ` set web" using sub by (rule subsetD[rotated])
      then obtain r where "r \<in> set web" and "PStr ''ALIBABA_WEBSAILOR'' = provider_of r" by (rule imageE)
      then show False using ne[of r] by simp
    qed
  qed
  then show ?thesis using fold_merge_social_providers[OF m2] by simp
qed

section \<open>The shape of a run\<close>

lemma execute_returns:
  assumes "fst (execute_massive_real_search w s query context session_id) = Inr doc"
  obtains sr s1 viral shots s2 ins stats where
    "search_phases w s query context = (Inr sr, s1)"
    "identify_viral_content (youtube_results sr @ social_results sr) = Inr viral"
    "fase5 w s1 viral session_id = Inr (shots, s2)"
    "analyze_all_data w session_id = Inr ins"
    "statistics w s2 (web_results sr @ social_results sr @ youtube_results sr) = Inr stats"
    "doc = search_document w query session_id sr viral shots stats ins"
  using assms
  by (auto simp: execute_massive_real_search_def split: prod.splits sum.splits)

lemma map_err_capture_dicts:
  "\<forall>item \<in> set items. \<exists>d. item = PDict d \<Longrightarrow>
     map_err (capture_item w session_id) items = Inr (map (\<lambda>x. []) items)"
  by (induction items) (auto simp: capture_item_empty)

lemma map_err_capture_cases:
  "map_err (capture_item w session_id) items = Inr paths \<Longrightarrow> concat paths = []"
proof (induction items arbitrary: paths)
  case Nil
  then show ?case by simp
next
  case (Cons item items)
  then obtain p ps where p: "capture_item w session_id item = Inr p"
    and ps: "map_err (capture_item w session_id) items = Inr ps" and e: "paths = p # ps"
    by (auto split: sum.splits)
  have "p = []" using capture_item_cases[of w session_id item] p by auto
  then show ?case using Cons.IH[OF ps] e by simp
qed

lemma capture_viral_cases:
  "capture_viral_screenshots w viral_content session_id = Inr []
   \<or> (\<exists>e. capture_viral_screenshots w viral_content session_id = Inl e)"
  by (auto simp: capture_viral_screenshots_def map_err_capture_cases split: sum.splits)

lemma visual_capture_bound:
  "import_from (Inr ()) visual_content_capture_globals ''visual_content_capture'' = Inr ()"
  by (simp add: import_from_def visual_content_capture_globals_def)

lemma capture_viral_dicts:
  assumes "visual_capture_executed w = Inr ()" "\<forall>item \<in> set viral_content. \<exists>d. item = PDict d"
  shows "capture_viral_screenshots w viral_content session_id = Inr []"
  using assms map_err_capture_dicts[OF assms(2), of w session_id]
  by (simp add: capture_viral_screenshots_def visual_capture_bound)

lemma is_viral_dict: "is_viral item = Inr v \<Longrightarrow> \<exists>d. item = PDict d"
  by (cases item) (simp_all add: is_viral_def)

lemma identify_viral_dicts:
  "identify_viral_content rs = Inr viral \<Longrightarrow> \<forall>item \<in> set viral. \<exists>d. item = PDict d"
proof (induction rs arbitrary: viral)
  case Nil
  then show ?case by simp
next
  case (Cons r rs)
  then obtain v vs where v: "is_viral r = Inr v" and vs: "identify_viral_content rs = Inr vs"
    and e: "viral = (if v then r # vs else vs)"
    by (auto split: sum.splits)
  show ?case using Cons.IH[OF vs] is_viral_dict[OF v] e by auto
qed

lemma fase5_no_screenshots: "fase5 w s viral session_id = Inr (shots, s') \<Longrightarrow> shots = []"
  using capture_viral_cases[of w viral session_id]
  by (auto simp: fase5_def split: if_splits sum.splits)

section \<open>Two concrete runs\<close>

lemma run_dup:
  "fst (execute_massive_real_search world_dup pool_dup ''energy drinks'' (PDict []) ''s1'') = Inr doc_dup"
  by code_simp

lemma run_none:
  "fst (execute_massive_real_search world_dup pool_none ''energy drinks'' (PDict []) ''s1'') = Inr doc_none"
  by code_simp

section \<open>Merging the adapters' results\<close>

lemma merge_web_items:
  "merge_web_result r sr = Inr sr' \<Longrightarrow>
     web_results sr' = web_results sr @ accepted_items r
     \<and> social_results sr' = social_results sr \<and> youtube_results sr' = youtube_results sr"
  by (auto simp: merge_web_result_def accepted_items_def py_subscript_def dict_get_def
           split: if_splits sum.splits option.splits)

lemma fold_merge_web_items:
  "fold_err merge_web_result rs sr = Inr sr' \<Longrightarrow>
     web_results sr' = web_results sr @ concat (map accepted_items rs)
     \<and> social_results sr' = social_results sr \<and> youtube_results sr' = youtube_results sr"
proof (induction rs arbitrary: sr)
  case Nil
  then show ?case by simp
next
  case (Cons r rs)
  then obtain sr1 where m: "merge_web_result r sr = Inr sr1"
    and f: "fold_err merge_web_result rs sr1 = Inr sr'"
    by (auto split: sum.splits)
  from Cons.IH[OF f] merge_web_items[OF m] show ?case by simp
qed

lemma merge_social_web:
  "merge_social_result r sr = Inr sr' \<Longrightarrow> web_results sr' = web_results sr"
  by (auto simp: merge_social_result_def split: if_splits sum.splits)

lemma fold_merge_social_web:
  "fold_err merge_social_result rs sr = Inr sr' \<Longrightarrow> web_results sr' = web_results sr"
proof (induction rs arbitrary: sr)
  case Nil
  then show ?case by simp
next
  case (Cons r rs)
  then obtain sr1 where m: "merge_social_result r sr = Inr sr1"
    and f: "fold_err merge_social_result rs sr1 = Inr sr'"
    by (auto split: sum.splits)
  from Cons.IH[OF f] merge_social_web[OF m] show ?case by simp
qed

lemma search_phases_web:
  assumes "search_phases w s query context = (Inr sr, s')"
  shows "web_results sr = concat (map accepted_items (fst (gather (web_tasks s) w s query)))"
proof -
  let ?sr0 = "\<lparr>providers_used = [], web_results = [], social_results = [], youtube_results = []\<rparr>"
  obtain web s1 where g1: "gather (web_tasks s) w s query = (web, s1)"
    by (cases "gather (web_tasks s) w s query")
  obtain social s2 where g2: "gather (social_tasks s1) w s1 query = (social, s2)"
    by (cases "gather (social_tasks s1) w s1 query")
  from assms obtain sr2 where m1: "fold_err merge_web_result web ?sr0 = Inr sr2"
    and m2: "fold_err merge_social_result social sr2 = Inr sr"
    by (auto simp: search_phases_def fase1_skips g1 g2 split: sum.splits)
  have "web_results sr2 = concat (map accepted_items web)"
    using fold_merge_web_items[OF m1] by simp
  then show ?thesis using fold_merge_social_web[OF m2] g1 by simp
qed

lemma url_of_length: "url_of r = Inr us \<Longrightarrow> length us \<le> 1"
  by (auto simp: url_of_def split: sum.splits if_splits)

lemma map_err_url_of_length:
  "map_err url_of rs = Inr uss \<Longrightarrow> length (concat uss) \<le> length rs"
proof (induction rs arbitrary: uss)
  case Nil
  then show ?case by simp
next
  case (Cons r rs)
  then obtain us uss' where u: "url_of r = Inr us" and m: "map_err url_of rs = Inr uss'"
    and e: "uss = us # uss'"
    by (auto split: sum.splits)
  show ?case using Cons.IH[OF m] url_of_length[OF u] e by simp
qed

lemma unique_urls_le: "unique_urls rs = Inr urls \<Longrightarrow> length urls \<le> length rs"
proof -
  assume "unique_urls rs = Inr urls"
  then obtain uss where m: "map_err url_of rs = Inr uss" and e: "urls = remdups (concat uss)"
    by (auto simp: unique_urls_def split: sum.splits)
  have "length urls \<le> length (concat uss)" using e by (simp add: length_remdups_leq)
  then show ?thesis using map_err_url_of_length[OF m] by simp
qed

section \<open>The virality condition\<close>







section \<open>The quality score and the heuristic\<close>

lemma map_err_total: "(\<And>x. x \<in> set xs \<Longrightarrow> f x = Inr (g x)) \<Longrightarrow> map_err f xs = Inr (map g xs)"
  by (induction xs) auto

lemma keyword_points_strings:
  assumes "dict_get ctx ''keywords'' (PList []) = PList (map PStr kws)"
  shows "keyword_points w content (PDict ctx)
         = Inr (map (\<lambda>k. if sublist (str_lower w k) (str_lower w content) then 5 else 0) kws)"
proof -
  have "map_err (keyword_point w content) (map PStr kws)
        = Inr (map (\<lambda>v. case v of PStr k \<Rightarrow> (if sublist (str_lower w k) (str_lower w content) then 5 else 0) | _ \<Rightarrow> 0)
                 (map PStr kws))"
    by (rule map_err_total) (auto simp: keyword_point_def)
  then have m: "map_err (keyword_point w content) (map PStr kws)
        = Inr (map (\<lambda>k. if sublist (str_lower w k) (str_lower w content) then 5 else 0) kws)"
    by (simp add: comp_def)
  show ?thesis
    using assms m by (cases kws) (simp_all add: keyword_points_def py_get_def py_iter_def)
qed

lemma sum_points:
  "sum_list (map (\<lambda>k. if P k then (5::rat) else 0) ks) = 5 * of_nat (length (filter P ks))"
  by (induction ks) (simp_all add: algebra_simps)

lemma band_fold:
  "(if 1000 < length content then 40 else if 500 < length content then 20
    else if 100 < length content then 10 else 0) = length_band content"
  by (simp add: length_band_def)

lemma quality_refines:
  assumes "urlparse_netloc w url = Inr netloc"
    "dict_get ctx ''keywords'' (PList []) = PList (map PStr kws)"
  shows "calculate_content_quality w content url (PDict ctx) = Inr (quality_heuristic (str_lower w) content kws netloc)"
proof -
  have k: "keyword_points w content (PDict ctx)
         = Inr (map (\<lambda>k. if sublist (str_lower w k) (str_lower w content) then 5 else 0) kws)"
    using assms(2) by (rule keyword_points_strings)
  have s: "sum_list (map (\<lambda>k. if sublist (str_lower w k) (str_lower w content) then (5::rat) else 0) kws)
         = 5 * of_nat (matched_keywords (str_lower w) content kws)"
    by (simp only: sum_points matched_keywords_def)
  show ?thesis
    unfolding calculate_content_quality_def quality_heuristic_def band_fold k assms(1) Let_def
    by (cases "in_domains (str_lower w) preferred_domains netloc"; cases "in_domains (str_lower w) blocked_domains netloc")
       (simp_all add: s)
qed

lemma quality_bounds:
  "calculate_content_quality w content url context = Inr score \<Longrightarrow> 0 \<le> score \<and> score \<le> 100"
proof -
  assume a: "calculate_content_quality w content url context = Inr score"
  then obtain x where "score = min 100 (max 0 x)"
    unfolding calculate_content_quality_def Let_def band_fold
    by (cases "keyword_points w content context"; cases "urlparse_netloc w url") auto
  then show ?thesis by simp
qed

lemma matched_empty:
  "lower [] = [] \<Longrightarrow> [] \<notin> set (map lower kws) \<Longrightarrow> matched_keywords lower [] kws = 0"
  by (induction kws) (auto simp: matched_keywords_def)

lemma lower_latin1_empty: "lower_latin1 s = [] \<longleftrightarrow> s = []"
  by (simp add: lower_latin1_def)

section \<open>What one capture does\<close>

lemma capture_attempt_setup:
  "\<not> driver s \<Longrightarrow> setup_calls (snd (capture_attempt b s url output_path)) = setup_calls s + 1"
  by (auto simp: capture_attempt_def Let_def split: sum.splits prod.splits)

lemma capture_attempt_quit:
  "quit_calls (snd (capture_attempt b s url output_path)) = quit_calls s"
  by (auto simp: capture_attempt_def Let_def split: sum.splits prod.splits if_splits)

lemma capture_attempt_visited:
  "\<not> driver s \<Longrightarrow> setup_driver b = Inr () \<Longrightarrow>
     visited (snd (capture_attempt b s url output_path)) = visited s @ [url]
     \<and> driver (snd (capture_attempt b s url output_path))"
  by (auto simp: capture_attempt_def Let_def split: sum.splits prod.splits)

lemma capture_attempt_not_launched:
  "\<not> driver s \<Longrightarrow> setup_driver b = Inl e \<Longrightarrow>
     visited (snd (capture_attempt b s url output_path)) = visited s
     \<and> \<not> driver (snd (capture_attempt b s url output_path))"
  by (auto simp: capture_attempt_def Let_def split: sum.splits prod.splits)

lemma capture_screenshot_effects:
  assumes "\<not> driver s"
  shows "setup_calls (snd (capture_screenshot b s url output_path)) = setup_calls s + 1"
    and "\<not> driver (snd (capture_screenshot b s url output_path))"
    and "setup_driver b = Inr () \<Longrightarrow>
           visited (snd (capture_screenshot b s url output_path)) = visited s @ [url]
         \<and> quit_calls (snd (capture_screenshot b s url output_path)) = quit_calls s + 1"
    and "setup_driver b = Inl e \<Longrightarrow>
           visited (snd (capture_screenshot b s url output_path)) = visited s"
proof -
  obtain r s1 where a: "capture_attempt b s url output_path = (r, s1)"
    by (cases "capture_attempt b s url output_path")
  have sc: "setup_calls s1 = setup_calls s + 1"
    using capture_attempt_setup[OF assms, of b url output_path] a by simp
  have qc: "quit_calls s1 = quit_calls s"
    using capture_attempt_quit[of b s url output_path] a by simp
  show "setup_calls (snd (capture_screenshot b s url output_path)) = setup_calls s + 1"
    using sc by (simp add: capture_screenshot_def a Let_def)
  show "\<not> driver (snd (capture_screenshot b s url output_path))"
    by (simp add: capture_screenshot_def a Let_def)
  show "setup_driver b = Inr () \<Longrightarrow>
           visited (snd (capture_screenshot b s url output_path)) = visited s @ [url]
         \<and> quit_calls (snd (capture_screenshot b s url output_path)) = quit_calls s + 1"
    using capture_attempt_visited[OF assms, of b url output_path] a qc
    by (simp add: capture_screenshot_def Let_def)
  show "setup_driver b = Inl e \<Longrightarrow>
           visited (snd (capture_screenshot b s url output_path)) = visited s"
    using capture_attempt_not_launched[OF assms, of b e url output_path] a
    by (simp add: capture_screenshot_def Let_def)
qed

lemma take_screenshot_saved:
  assumes "case wait_body b of Inr u \<Rightarrow> True | Inl e \<Rightarrow> exn_class e = TimeoutException"
    "case page_title b of Inr t \<Rightarrow> True | Inl e \<Rightarrow> False"
    "case page_current_url b of Inr t \<Rightarrow> True | Inl e \<Rightarrow> False"
    "mkdir_parent b output_path = Inr ()" "save_screenshot b output_path = Inr (Some n)" "0 < n"
  shows "\<exists>artifact. take_screenshot b disk url output_path
            = (Inr artifact, AList.update output_path n disk)
          \<and> map_of artifact ''success'' = Some (PBool True)
          \<and> map_of artifact ''url'' = Some (PStr url)
          \<and> map_of artifact ''filepath'' = Some (PStr output_path)
          \<and> map_of artifact ''filesize'' = Some (PInt (int n))"
  using assms
  by (cases "wait_body b"; cases "page_title b"; cases "page_current_url b")
     (simp_all add: take_screenshot_def Let_def update_conv')

lemma capture_screenshot_saved:
  assumes d: "\<not> driver s" and ok: "screenshot_saved b url output_path n"
  shows "\<exists>artifact. fst (capture_screenshot b s url output_path) = artifact
          \<and> map_of artifact ''success'' = Some (PBool True)
          \<and> map_of artifact ''url'' = Some (PStr url)
          \<and> map_of artifact ''filepath'' = Some (PStr output_path)
          \<and> map_of artifact ''filesize'' = Some (PInt (int n))"
    and "files (snd (capture_screenshot b s url output_path)) = AList.update output_path n (files s)"
proof -
  from ok have su: "setup_driver b = Inr ()" and pg: "page_get b url = Inr ()"
    and w: "case wait_body b of Inr u \<Rightarrow> True | Inl e \<Rightarrow> exn_class e = TimeoutException"
    and pt: "case page_title b of Inr t \<Rightarrow> True | Inl e \<Rightarrow> False"
    and pu: "case page_current_url b of Inr t \<Rightarrow> True | Inl e \<Rightarrow> False"
    and mk: "mkdir_parent b output_path = Inr ()"
    and sv: "save_screenshot b output_path = Inr (Some n)" and n: "0 < n"
    by (simp_all add: screenshot_saved_def)
  obtain artifact where t: "take_screenshot b (files s) url output_path
            = (Inr artifact, AList.update output_path n (files s))"
    and a: "map_of artifact ''success'' = Some (PBool True)"
      "map_of artifact ''url'' = Some (PStr url)"
      "map_of artifact ''filepath'' = Some (PStr output_path)"
      "map_of artifact ''filesize'' = Some (PInt (int n))"
    using take_screenshot_saved[OF w pt pu mk sv n, of "files s" url] by blast
  have c: "capture_attempt b s url output_path
           = (Inr artifact,
              s\<lparr>setup_calls := setup_calls s + 1, driver := True, visited := visited s @ [url],
                files := AList.update output_path n (files s)\<rparr>)"
    using d su pg t by (simp add: capture_attempt_def Let_def)
  show "\<exists>artifact. fst (capture_screenshot b s url output_path) = artifact
          \<and> map_of artifact ''success'' = Some (PBool True)
          \<and> map_of artifact ''url'' = Some (PStr url)
          \<and> map_of artifact ''filepath'' = Some (PStr output_path)
          \<and> map_of artifact ''filesize'' = Some (PInt (int n))"
    using a by (simp add: capture_screenshot_def c Let_def)
  show "files (snd (capture_screenshot b s url output_path)) = AList.update output_path n (files s)"
    by (simp add: capture_screenshot_def c Let_def)
qed

lemma capture_screenshot_page_fails:
  assumes d: "\<not> driver s" and su: "setup_driver b = Inr ()" and pg: "page_get b url = Inl e"
  shows "files (snd (capture_screenshot b s url output_path)) = files s"
    and "map_of (fst (capture_screenshot b s url output_path)) ''success'' = Some (PBool False)"
  using assms by (simp_all add: capture_screenshot_def capture_attempt_def Let_def)

section \<open>The handler of the collector\<close>

lemma collect_raises_handler:
  assumes "collect cw query context session_id = Inl e"
  shows "execute_massive_collection cw st query context session_id =
           ((case salvar_erro_call cw of Inl e' \<Rightarrow> Inl e' | Inr u \<Rightarrow> Inr (collection_error e)),
            st\<lparr>auto_save_calls := auto_save_calls st
                   @ [SalvarErro ''massive_data_collection'' e
                        [(''query'', PStr query), (''session_id'', PStr session_id)]]\<rparr>)"
  using assms by (simp add: execute_massive_collection_def split: sum.splits)


lemma handler_writes_nothing:
  "written (snd (execute_massive_collection cw st query context session_id))
   = written (snd (case collect cw query context session_id of
              Inl e \<Rightarrow> (Inl e, st)
            | Inr massive_data \<Rightarrow> persist cw st massive_data session_id))"
  by (simp add: execute_massive_collection_def split: sum.splits prod.splits)


text \<open>
  \<^verbatim>\<open>select_top_urls\<close> is not an attribute of \<^verbatim>\<open>VisualContentCapture\<close>, so phase 5
  raises \<^verbatim>\<open>AttributeError\<close> in every session that reaches it; with the class as it
  is, every call of the collector ends in its handler and writes no file.
\<close>

lemma url_selection_raises: "\<exists>e. url_selection cw web_data = Inl e"
  by (simp add: url_selection_def getattr_def VisualContentCapture_attributes_def)

lemma url_selection_never: "url_selection cw web_data \<noteq> Inr x"
  using url_selection_raises[of cw web_data] by auto

lemma collect_always_raises: "\<exists>e. collect cw query context session_id = Inl e"
  by (auto simp: collect_def url_selection_never split: sum.splits)

lemma collection_never_writes:
  "written (snd (execute_massive_collection cw st query context session_id)) = written st"
proof -
  obtain e where "collect cw query context session_id = Inl e"
    using collect_always_raises by blast
  then show ?thesis by (simp add: collect_raises_handler)
qed

section \<open>No screenshot is ever captured for viral content\<close>

text \<open>
  C10. \<^verbatim>\<open>_capture_viral_screenshots\<close> never returns a non-empty list: it returns
  the empty list or raises, and it returns the empty list whenever the module
  \<^verbatim>\<open>services.visual_content_capture\<close> can be imported and the items are dicts, as
  the items that \<^verbatim>\<open>_identify_viral_content\<close> returns are. The reason is that
  \<^verbatim>\<open>capture_screenshot_async\<close> is not an attribute of \<^verbatim>\<open>VisualContentCapture\<close>,
  and the \<^verbatim>\<open>AttributeError\<close> is caught for each item. So the list
  \<^verbatim>\<open>screenshots_captured\<close> of every document the orchestrator returns is empty.
\<close>

theorem capture_viral_screenshots_empty:
  "(capture_viral_screenshots w viral_content session_id = Inr []
      \<or> (\<exists>e. capture_viral_screenshots w viral_content session_id = Inl e))
   \<and> (visual_capture_executed w = Inr () \<and> (\<forall>item \<in> set viral_content. \<exists>d. item = PDict d)
        \<longrightarrow> capture_viral_screenshots w viral_content session_id = Inr [])
   \<and> (visual_capture_executed w = Inr () \<and> identify_viral_content rs = Inr viral_content
        \<longrightarrow> capture_viral_screenshots w viral_content session_id = Inr [])
   \<and> (fst (execute_massive_real_search w s query context session_id) = Inr doc
        \<longrightarrow> map_of doc ''screenshots_captured'' = Some (PList []))"
proof (intro conjI impI)
  show "capture_viral_screenshots w viral_content session_id = Inr []
      \<or> (\<exists>e. capture_viral_screenshots w viral_content session_id = Inl e)"
    by (rule capture_viral_cases)
next
  assume "visual_capture_executed w = Inr () \<and> (\<forall>item \<in> set viral_content. \<exists>d. item = PDict d)"
  then show "capture_viral_screenshots w viral_content session_id = Inr []"
    using capture_viral_dicts by blast
next
  assume "visual_capture_executed w = Inr () \<and> identify_viral_content rs = Inr viral_content"
  then show "capture_viral_screenshots w viral_content session_id = Inr []"
    using capture_viral_dicts identify_viral_dicts by blast
next
  assume "fst (execute_massive_real_search w s query context session_id) = Inr doc"
  then obtain sr s1 viral shots s2 ins stats where
    f5: "fase5 w s1 viral session_id = Inr (shots, s2)"
    and d: "doc = search_document w query session_id sr viral shots stats ins"
    by (rule execute_returns)
  have "shots = []" using f5 by (rule fase5_no_screenshots)
  then show "map_of doc ''screenshots_captured'' = Some (PList [])"
    using d by (simp add: search_document_def)
qed

theorem capture_viral_screenshots_empty_witness:
  "visual_capture_executed world_dup = Inr ()
   \<and> identify_viral_content viral_example = Inr viral_example
   \<and> capture_viral_screenshots world_dup viral_example ''s1'' = Inr []
   \<and> fst (execute_massive_real_search world_dup pool_dup ''energy drinks'' (PDict []) ''s1'') = Inr doc_dup
   \<and> map_of doc_dup ''screenshots_captured'' = Some (PList [])"
proof -
  have a: "visual_capture_executed world_dup = Inr ()" by (simp add: world_dup_def)
  have b: "identify_viral_content viral_example = Inr viral_example" by code_simp
  have c: "\<forall>item \<in> set viral_example. \<exists>d. item = PDict d" by (simp add: viral_example_def)
  have d: "fst (execute_massive_real_search world_dup pool_dup ''energy drinks'' (PDict []) ''s1'') = Inr doc_dup"
    by (rule run_dup)
  show ?thesis
    using capture_viral_screenshots_empty[of world_dup viral_example "''s1''" viral_example
        pool_dup "''energy drinks''" "PDict []" doc_dup] a b c d
    by blast
qed

section \<open>The module never imports \<open>re\<close>\<close>

text \<open>
  C9. Every call of \<^verbatim>\<open>_extract_search_results_from_content\<close> raises
  \<^verbatim>\<open>NameError\<close>, because \<^verbatim>\<open>re\<close> is not bound in the module. So the success
  branch of \<^verbatim>\<open>_search_firecrawl\<close> always raises and the adapter always returns the
  failure dict, with \<^verbatim>\<open>success\<close> false; and \<^verbatim>\<open>_search_jina\<close> returns either the
  failure dict or a success with the empty list of results.
\<close>

theorem extract_search_results_raises_NameError:
  "extract_search_results_from_content w content source = Inl (Exn NameError ''name is not defined: re'')
   \<and> (\<exists>e. firecrawl_ok w response = Inl e)
   \<and> (\<exists>msg. fst (search_firecrawl w s query) = failure msg)
   \<and> dict_get (fst (search_firecrawl w s query)) ''success'' PNone = PBool False
   \<and> ((\<exists>msg. fst (search_jina w s query) = failure msg)
        \<or> fst (search_jina w s query) =
            [(''success'', PBool True), (''provider'', PStr ''JINA''), (''results'', PList [])])"
proof (intro conjI)
  show "extract_search_results_from_content w content source = Inl (Exn NameError ''name is not defined: re'')"
    by (rule extract_raises)
  show "\<exists>e. firecrawl_ok w response = Inl e" by (rule firecrawl_ok_raises)
  show "\<exists>msg. fst (search_firecrawl w s query) = failure msg" by (rule search_firecrawl_fails)
  show "dict_get (fst (search_firecrawl w s query)) ''success'' PNone = PBool False"
    using search_firecrawl_fails[of w s query] by (auto simp: failure_def dict_get_def)
  show "(\<exists>msg. fst (search_jina w s query) = failure msg)
        \<or> fst (search_jina w s query) =
            [(''success'', PBool True), (''provider'', PStr ''JINA''), (''results'', PList [])]"
    by (rule search_jina_shape)
qed

text \<open>The Jina adapter does report success: with a key, whatever the network answers.\<close>

lemma search_jina_succeeds_example:
  "fst (search_jina world_dup (init_orchestrator (Map.empty(''JINA'' \<mapsto> [''j1'']))) ''energy drinks'')
   = [(''success'', PBool True), (''provider'', PStr ''JINA''), (''results'', PList [])]"
  by code_simp

section \<open>The deep-navigation provider never contributes\<close>

text \<open>
  C8. \<^verbatim>\<open>_search_alibaba_websailor\<close> returns a failure dict, with \<^verbatim>\<open>success\<close>
  false, for every query and context: the module \<^verbatim>\<open>services.alibaba_websailor\<close> binds
  \<^verbatim>\<open>alibaba_websailor_agent\<close> and no \<^verbatim>\<open>alibaba_websailor\<close>, so the import
  raises \<^verbatim>\<open>ImportError\<close> (or whatever executing the module raises), and both
  handlers return the failure dict. Phase 1 therefore leaves the result lists as they
  are, and \<^verbatim>\<open>'ALIBABA_WEBSAILOR'\<close> is not in \<^verbatim>\<open>providers_used\<close> of any document
  the orchestrator returns.
\<close>

theorem search_alibaba_websailor_always_fails:
  "(\<exists>msg. search_alibaba_websailor w query context = failure msg)
   \<and> dict_get (search_alibaba_websailor w query context) ''success'' PNone = PBool False
   \<and> (websailor_executed w = Inr ()
        \<longrightarrow> search_alibaba_websailor w query context = failure ''Alibaba WebSailor nao disponivel'')
   \<and> fase1 w query context sr = Inr sr
   \<and> (fst (execute_massive_real_search w s query context session_id) = Inr doc
        \<longrightarrow> (\<exists>ps. map_of doc ''providers_used'' = Some (PList ps)
                  \<and> PStr ''ALIBABA_WEBSAILOR'' \<notin> set ps))"
proof (intro conjI impI)
  show "\<exists>msg. search_alibaba_websailor w query context = failure msg"
    by (rule search_alibaba_websailor_fails)
  show "dict_get (search_alibaba_websailor w query context) ''success'' PNone = PBool False"
    using search_alibaba_websailor_fails[of w query "context"] by (auto simp: failure_def dict_get_def)
  show "fase1 w query context sr = Inr sr" by (rule fase1_skips)
next
  assume "websailor_executed w = Inr ()"
  then show "search_alibaba_websailor w query context = failure ''Alibaba WebSailor nao disponivel''"
    by (simp add: search_alibaba_websailor_def import_from_def alibaba_websailor_globals_def)
next
  assume "fst (execute_massive_real_search w s query context session_id) = Inr doc"
  then obtain sr s1 viral shots stats ins where
    p: "search_phases w s query context = (Inr sr, s1)"
    and d: "doc = search_document w query session_id sr viral shots stats ins"
    by (rule execute_returns)
  have "PStr ''ALIBABA_WEBSAILOR'' \<notin> set (providers_used sr)"
    using p by (rule search_phases_providers)
  moreover have "map_of doc ''providers_used'' = Some (PList (providers_used sr))"
    using d by (simp add: search_document_def)
  ultimately show "\<exists>ps. map_of doc ''providers_used'' = Some (PList ps)
                  \<and> PStr ''ALIBABA_WEBSAILOR'' \<notin> set ps"
    by blast
qed

theorem search_alibaba_websailor_always_fails_witness:
  "websailor_executed world_dup = Inr ()
   \<and> search_alibaba_websailor world_dup ''energy drinks'' (PDict []) = failure ''Alibaba WebSailor nao disponivel''
   \<and> fst (execute_massive_real_search world_dup pool_dup ''energy drinks'' (PDict []) ''s1'') = Inr doc_dup
   \<and> map_of doc_dup ''providers_used'' = Some (PList [PStr ''GOOGLE'', PStr ''EXA''])
   \<and> PStr ''ALIBABA_WEBSAILOR'' \<notin> set [PStr ''GOOGLE'', PStr ''EXA'']"
proof -
  have a: "websailor_executed world_dup = Inr ()" by (simp add: world_dup_def)
  have d: "fst (execute_massive_real_search world_dup pool_dup ''energy drinks'' (PDict []) ''s1'') = Inr doc_dup"
    by (rule run_dup)
  have p: "map_of doc_dup ''providers_used'' = Some (PList [PStr ''GOOGLE'', PStr ''EXA''])"
    by (simp add: doc_dup_def)
  from search_alibaba_websailor_always_fails[of world_dup "''energy drinks''" "PDict []" _
        pool_dup "''s1''" doc_dup] a d
  have "search_alibaba_websailor world_dup ''energy drinks'' (PDict []) = failure ''Alibaba WebSailor nao disponivel''"
    and "\<exists>ps. map_of doc_dup ''providers_used'' = Some (PList ps) \<and> PStr ''ALIBABA_WEBSAILOR'' \<notin> set ps"
    by blast+
  then show ?thesis using a d p by auto
qed

section \<open>The merged results are not deduplicated\<close>

text \<open>
  C4, as the claim states it, fails: with two providers that return a record for the
  same address, \<^verbatim>\<open>web_results\<close> of the returned document holds both records.
\<close>

theorem merged_results_deduplicated_counterexample:
  "fst (execute_massive_real_search world_dup pool_dup ''energy drinks'' (PDict []) ''s1'') = Inr doc_dup
   \<and> map_of doc_dup ''web_results'' =
       Some (PList [PDict [(''title'', PStr ''Energy drinks''), (''url'', PStr ''https://example.com/a''),
                           (''snippet'', PStr ''from google''), (''source'', PStr ''google'')],
                    PDict [(''title'', PStr ''Energy drinks''), (''url'', PStr ''https://example.com/a''),
                           (''snippet'', PStr ''from exa''), (''source'', PStr ''exa'')]])
   \<and> \<not> one_record_per_url
         [PDict [(''title'', PStr ''Energy drinks''), (''url'', PStr ''https://example.com/a''),
                 (''snippet'', PStr ''from google''), (''source'', PStr ''google'')],
          PDict [(''title'', PStr ''Energy drinks''), (''url'', PStr ''https://example.com/a''),
                 (''snippet'', PStr ''from exa''), (''source'', PStr ''exa'')]]"
  using run_dup by (simp add: doc_dup_def one_record_per_url_def record_url_def dict_get_def)

text \<open>
  C4, amended. In every document the orchestrator returns, \<^verbatim>\<open>web_results\<close> is the
  concatenation, in the order of the tasks, of the result lists of the web adapters that
  reported success with a non-empty list; nothing is normalized or removed. Distinct
  addresses are only counted: \<^verbatim>\<open>statistics.total_sources\<close> is the number of all
  records, and \<^verbatim>\<open>statistics.unique_urls\<close> the number of distinct non-empty
  \<^verbatim>\<open>url\<close> values, which is at most \<^verbatim>\<open>total_sources\<close>.
\<close>

theorem merged_results_keep_duplicates:
  "fst (execute_massive_real_search w s query context session_id) = Inr doc \<longrightarrow>
     (\<exists>web social youtube stats urls.
        map_of doc ''web_results'' = Some (PList web)
      \<and> map_of doc ''social_results'' = Some (PList social)
      \<and> map_of doc ''youtube_results'' = Some (PList youtube)
      \<and> web = concat (map accepted_items (fst (gather (web_tasks s) w s query)))
      \<and> map_of doc ''statistics'' = Some (PDict stats)
      \<and> map_of stats ''total_sources'' = Some (PInt (int (length (web @ social @ youtube))))
      \<and> unique_urls (web @ social @ youtube) = Inr urls
      \<and> map_of stats ''unique_urls'' = Some (PInt (int (length urls)))
      \<and> length urls \<le> length (web @ social @ youtube))"
proof
  assume "fst (execute_massive_real_search w s query context session_id) = Inr doc"
  then obtain sr s1 viral shots s2 ins stats where
    p: "search_phases w s query context = (Inr sr, s1)"
    and st: "statistics w s2 (web_results sr @ social_results sr @ youtube_results sr) = Inr stats"
    and d: "doc = search_document w query session_id sr viral shots stats ins"
    by (rule execute_returns)
  let ?all = "web_results sr @ social_results sr @ youtube_results sr"
  from st obtain urls where u: "unique_urls ?all = Inr urls"
    and t: "map_of stats ''total_sources'' = Some (PInt (int (length ?all)))"
    and n: "map_of stats ''unique_urls'' = Some (PInt (int (length urls)))"
    by (auto simp: statistics_def split: sum.splits)
  have le: "length urls \<le> length ?all" using u by (rule unique_urls_le)
  have w: "web_results sr = concat (map accepted_items (fst (gather (web_tasks s) w s query)))"
    using p by (rule search_phases_web)
  have d1: "map_of doc ''web_results'' = Some (PList (web_results sr))"
    and d2: "map_of doc ''social_results'' = Some (PList (social_results sr))"
    and d3: "map_of doc ''youtube_results'' = Some (PList (youtube_results sr))"
    and d4: "map_of doc ''statistics'' = Some (PDict stats)"
    using d by (simp_all add: search_document_def)
  show "\<exists>web social youtube stats urls.
        map_of doc ''web_results'' = Some (PList web)
      \<and> map_of doc ''social_results'' = Some (PList social)
      \<and> map_of doc ''youtube_results'' = Some (PList youtube)
      \<and> web = concat (map accepted_items (fst (gather (web_tasks s) w s query)))
      \<and> map_of doc ''statistics'' = Some (PDict stats)
      \<and> map_of stats ''total_sources'' = Some (PInt (int (length (web @ social @ youtube))))
      \<and> unique_urls (web @ social @ youtube) = Inr urls
      \<and> map_of stats ''unique_urls'' = Some (PInt (int (length urls)))
      \<and> length urls \<le> length (web @ social @ youtube)"
    using d1 d2 d3 d4 w t u n le by blast
qed

theorem merged_results_keep_duplicates_witness:
  "fst (execute_massive_real_search world_dup pool_dup ''energy drinks'' (PDict []) ''s1'') = Inr doc_dup
   \<and> (\<exists>web social youtube stats urls.
        map_of doc_dup ''web_results'' = Some (PList web)
      \<and> map_of doc_dup ''social_results'' = Some (PList social)
      \<and> map_of doc_dup ''youtube_results'' = Some (PList youtube)
      \<and> web = concat (map accepted_items (fst (gather (web_tasks pool_dup) world_dup pool_dup ''energy drinks'')))
      \<and> map_of doc_dup ''statistics'' = Some (PDict stats)
      \<and> map_of stats ''total_sources'' = Some (PInt (int (length (web @ social @ youtube))))
      \<and> unique_urls (web @ social @ youtube) = Inr urls
      \<and> map_of stats ''unique_urls'' = Some (PInt (int (length urls)))
      \<and> length urls \<le> length (web @ social @ youtube))"
proof (rule conjI)
  show d: "fst (execute_massive_real_search world_dup pool_dup ''energy drinks'' (PDict []) ''s1'') = Inr doc_dup"
    by (rule run_dup)
  show "\<exists>web social youtube stats urls.
        map_of doc_dup ''web_results'' = Some (PList web)
      \<and> map_of doc_dup ''social_results'' = Some (PList social)
      \<and> map_of doc_dup ''youtube_results'' = Some (PList youtube)
      \<and> web = concat (map accepted_items (fst (gather (web_tasks pool_dup) world_dup pool_dup ''energy drinks'')))
      \<and> map_of doc_dup ''statistics'' = Some (PDict stats)
      \<and> map_of stats ''total_sources'' = Some (PInt (int (length (web @ social @ youtube))))
      \<and> unique_urls (web @ social @ youtube) = Inr urls
      \<and> map_of stats ''unique_urls'' = Some (PInt (int (length urls)))
      \<and> length urls \<le> length (web @ social @ youtube)"
    using merged_results_keep_duplicates[of world_dup pool_dup "''energy drinks''" "PDict []" "''s1''" doc_dup] d
    by (rule mp)
qed

section \<open>A run without providers\<close>

text \<open>
  C1, as the claim states it, fails: the document returned without any provider has no
  \<^verbatim>\<open>success\<close> field (so none that is false) and no \<^verbatim>\<open>error\<close> field.
\<close>

theorem no_providers_success_false_counterexample:
  "api_keys pool_none = Map.empty
   \<and> fst (execute_massive_real_search world_dup pool_none ''energy drinks'' (PDict []) ''s1'') = Inr doc_none
   \<and> map_of doc_none ''success'' \<noteq> Some (PBool False)
   \<and> map_of doc_none ''success'' = None
   \<and> map_of doc_none ''error'' = None"
  using run_none by (simp add: pool_none_def init_orchestrator_def doc_none_def)

text \<open>
  C1, amended. Without any provider the orchestrator runs no search task; it returns
  the document with empty \<^verbatim>\<open>providers_used\<close>, \<^verbatim>\<open>web_results\<close>,
  \<^verbatim>\<open>social_results\<close>, \<^verbatim>\<open>youtube_results\<close>, \<^verbatim>\<open>viral_content\<close> and
  \<^verbatim>\<open>screenshots_captured\<close>, zero counts, and the answer of the analytics service
  as \<^verbatim>\<open>predictive_insights\<close>; the document has no \<^verbatim>\<open>success\<close> and no
  \<^verbatim>\<open>error\<close> field. The call raises only what the analytics service raises, and that
  service raises only when its error sink \<^verbatim>\<open>salvar_erro\<close> does.
\<close>

theorem no_providers_document:
  "api_keys s = Map.empty \<longrightarrow>
     execute_massive_real_search w s query context session_id =
       (case analyze_all_data w session_id of
          Inl e \<Rightarrow> (Inl e, s)
        | Inr predictive_insights \<Rightarrow>
            (Inr (search_document w query session_id
                    \<lparr>providers_used = [], web_results = [], social_results = [], youtube_results = []\<rparr>
                    [] []
                    [(''total_sources'', PInt 0), (''unique_urls'', PInt 0),
                     (''content_extracted'', PInt 0),
                     (''api_calls_made'', PInt (int (sum_list (map snd (api_rotations s))))),
                     (''search_duration'', elapsed w)]
                    predictive_insights), s))
     \<and> (salvar_erro_ok w = Inr () \<longrightarrow>
            (\<exists>doc. fst (execute_massive_real_search w s query context session_id) = Inr doc))
     \<and> (\<forall>doc. fst (execute_massive_real_search w s query context session_id) = Inr doc \<longrightarrow>
            map_of doc ''providers_used'' = Some (PList [])
          \<and> map_of doc ''web_results'' = Some (PList [])
          \<and> map_of doc ''social_results'' = Some (PList [])
          \<and> map_of doc ''youtube_results'' = Some (PList [])
          \<and> map_of doc ''viral_content'' = Some (PList [])
          \<and> map_of doc ''screenshots_captured'' = Some (PList [])
          \<and> map_of doc ''success'' = None
          \<and> map_of doc ''error'' = None)"
proof
  assume k: "api_keys s = Map.empty"
  have sp: "search_phases w s query context =
         (Inr \<lparr>providers_used = [], web_results = [], social_results = [], youtube_results = []\<rparr>, s)"
    using k by (simp add: search_phases_def fase1_skips web_tasks_def social_tasks_def)
  have st: "statistics w s [] =
      Inr [(''total_sources'', PInt 0), (''unique_urls'', PInt 0), (''content_extracted'', PInt 0),
           (''api_calls_made'', PInt (int (sum_list (map snd (api_rotations s))))),
           (''search_duration'', elapsed w)]"
    by (simp add: statistics_def unique_urls_def)
  have run: "execute_massive_real_search w s query context session_id =
       (case analyze_all_data w session_id of
          Inl e \<Rightarrow> (Inl e, s)
        | Inr predictive_insights \<Rightarrow>
            (Inr (search_document w query session_id
                    \<lparr>providers_used = [], web_results = [], social_results = [], youtube_results = []\<rparr>
                    [] []
                    [(''total_sources'', PInt 0), (''unique_urls'', PInt 0),
                     (''content_extracted'', PInt 0),
                     (''api_calls_made'', PInt (int (sum_list (map snd (api_rotations s))))),
                     (''search_duration'', elapsed w)]
                    predictive_insights), s))"
    by (simp add: execute_massive_real_search_def sp fase5_def st split: sum.splits)
  have ret: "salvar_erro_ok w = Inr () \<longrightarrow>
            (\<exists>doc. fst (execute_massive_real_search w s query context session_id) = Inr doc)"
  proof
    assume "salvar_erro_ok w = Inr ()"
    then have "\<exists>ins. analyze_all_data w session_id = Inr ins"
      by (cases "engine_analysis w session_id"; cases "salvar_etapa_ok w")
         (simp_all add: analyze_all_data_def analysis_failed_def)
    then obtain ins where "analyze_all_data w session_id = Inr ins" ..
    then show "\<exists>doc. fst (execute_massive_real_search w s query context session_id) = Inr doc"
      by (simp add: run)
  qed
  have doc: "\<forall>doc. fst (execute_massive_real_search w s query context session_id) = Inr doc \<longrightarrow>
            map_of doc ''providers_used'' = Some (PList [])
          \<and> map_of doc ''web_results'' = Some (PList [])
          \<and> map_of doc ''social_results'' = Some (PList [])
          \<and> map_of doc ''youtube_results'' = Some (PList [])
          \<and> map_of doc ''viral_content'' = Some (PList [])
          \<and> map_of doc ''screenshots_captured'' = Some (PList [])
          \<and> map_of doc ''success'' = None
          \<and> map_of doc ''error'' = None"
    by (auto simp: run search_document_def split: sum.splits)
  show "execute_massive_real_search w s query context session_id =
       (case analyze_all_data w session_id of
          Inl e \<Rightarrow> (Inl e, s)
        | Inr predictive_insights \<Rightarrow>
            (Inr (search_document w query session_id
                    \<lparr>providers_used = [], web_results = [], social_results = [], youtube_results = []\<rparr>
                    [] []
                    [(''total_sources'', PInt 0), (''unique_urls'', PInt 0),
                     (''content_extracted'', PInt 0),
                     (''api_calls_made'', PInt (int (sum_list (map snd (api_rotations s))))),
                     (''search_duration'', elapsed w)]
                    predictive_insights), s))
     \<and> (salvar_erro_ok w = Inr () \<longrightarrow>
            (\<exists>doc. fst (execute_massive_real_search w s query context session_id) = Inr doc))
     \<and> (\<forall>doc. fst (execute_massive_real_search w s query context session_id) = Inr doc \<longrightarrow>
            map_of doc ''providers_used'' = Some (PList [])
          \<and> map_of doc ''web_results'' = Some (PList [])
          \<and> map_of doc ''social_results'' = Some (PList [])
          \<and> map_of doc ''youtube_results'' = Some (PList [])
          \<and> map_of doc ''viral_content'' = Some (PList [])
          \<and> map_of doc ''screenshots_captured'' = Some (PList [])
          \<and> map_of doc ''success'' = None
          \<and> map_of doc ''error'' = None)"
    using run ret doc by blast
qed

theorem no_providers_document_witness:
  "api_keys pool_none = Map.empty
   \<and> salvar_erro_ok world_dup = Inr ()
   \<and> fst (execute_massive_real_search world_dup pool_none ''energy drinks'' (PDict []) ''s1'') = Inr doc_none
   \<and> map_of doc_none ''providers_used'' = Some (PList [])
   \<and> map_of doc_none ''web_results'' = Some (PList [])
   \<and> map_of doc_none ''social_results'' = Some (PList [])
   \<and> map_of doc_none ''youtube_results'' = Some (PList [])
   \<and> map_of doc_none ''viral_content'' = Some (PList [])
   \<and> map_of doc_none ''screenshots_captured'' = Some (PList [])
   \<and> map_of doc_none ''success'' = None
   \<and> map_of doc_none ''error'' = None"
proof -
  have k: "api_keys pool_none = Map.empty" by (simp add: pool_none_def init_orchestrator_def)
  have e: "salvar_erro_ok world_dup = Inr ()" by (simp add: world_dup_def)
  have d: "fst (execute_massive_real_search world_dup pool_none ''energy drinks'' (PDict []) ''s1'') = Inr doc_none"
    by (rule run_none)
  note t = no_providers_document[of pool_none world_dup "''energy drinks''" "PDict []" "''s1''",
      THEN mp, OF k]
  have "map_of doc_none ''providers_used'' = Some (PList [])
          \<and> map_of doc_none ''web_results'' = Some (PList [])
          \<and> map_of doc_none ''social_results'' = Some (PList [])
          \<and> map_of doc_none ''youtube_results'' = Some (PList [])
          \<and> map_of doc_none ''viral_content'' = Some (PList [])
          \<and> map_of doc_none ''screenshots_captured'' = Some (PList [])
          \<and> map_of doc_none ''success'' = None
          \<and> map_of doc_none ''error'' = None"
    using t[THEN conjunct2, THEN conjunct2, THEN spec, of doc_none] d by (rule mp)
  then show ?thesis using k e d by simp
qed

section \<open>Virality is monotone in each metric\<close>



section \<open>The quality score\<close>

text \<open>
  C5, as the claim states it, fails in its last part: empty content from a preferred
  source scores 20, not 0.
\<close>

theorem empty_content_scores_zero_counterexample:
  "calculate_content_quality world_dup [] ''https://g1.globo.com/economia'' (PDict []) = Inr 20
   \<and> (20::rat) \<noteq> 0"
  by code_simp

text \<open>
  C5, amended. When the address parses and the context's keywords are strings, the score
  is the heuristic: the points of the length band (40 above 1000 characters, else 20
  above 500, else 10 above 100), 5 points per keyword whose lower-case form occurs in
  the lower-case content, 20 points when a preferred domain occurs in the lower-case
  network location of the address, 30 points off when a blocked domain occurs in it,
  clamped to the interval from 0 to 100; lower case is what \<^verbatim>\<open>str.lower\<close> gives,
  whatever that is. Every score the function returns is within that interval. Empty
  content scores 0 unless the lower-case form of a keyword is empty or the source is
  preferred: the empty string being its own lower-case form, and no keyword having an
  empty one, it scores 20 for a preferred source that is not blocked, and 0 otherwise.
\<close>

theorem content_quality_score:
  "(urlparse_netloc w url = Inr netloc
      \<and> dict_get ctx ''keywords'' (PList []) = PList (map PStr kws)
    \<longrightarrow> calculate_content_quality w content url (PDict ctx)
          = Inr (quality_heuristic (str_lower w) content kws netloc))
   \<and> (calculate_content_quality w content url context = Inr score
    \<longrightarrow> 0 \<le> score \<and> score \<le> 100)
   \<and> (urlparse_netloc w url = Inr netloc
      \<and> dict_get ctx ''keywords'' (PList []) = PList (map PStr kws)
      \<and> str_lower w [] = [] \<and> [] \<notin> set (map (str_lower w) kws)
    \<longrightarrow> calculate_content_quality w [] url (PDict ctx)
          = Inr (if in_domains (str_lower w) preferred_domains netloc
                    \<and> \<not> in_domains (str_lower w) blocked_domains netloc
                 then 20 else 0))"
proof (intro conjI impI)
  assume "urlparse_netloc w url = Inr netloc
      \<and> dict_get ctx ''keywords'' (PList []) = PList (map PStr kws)"
  then show "calculate_content_quality w content url (PDict ctx)
          = Inr (quality_heuristic (str_lower w) content kws netloc)"
    using quality_refines by blast
next
  assume "calculate_content_quality w content url context = Inr score"
  then show "0 \<le> score" and "score \<le> 100"
    using quality_bounds by blast+
next
  assume h: "urlparse_netloc w url = Inr netloc
      \<and> dict_get ctx ''keywords'' (PList []) = PList (map PStr kws)
      \<and> str_lower w [] = [] \<and> [] \<notin> set (map (str_lower w) kws)"
  then have "calculate_content_quality w [] url (PDict ctx)
             = Inr (quality_heuristic (str_lower w) [] kws netloc)"
    using quality_refines by blast
  moreover have "matched_keywords (str_lower w) [] kws = 0"
    using h matched_empty[of "str_lower w" kws] by blast
  ultimately show "calculate_content_quality w [] url (PDict ctx)
          = Inr (if in_domains (str_lower w) preferred_domains netloc
                    \<and> \<not> in_domains (str_lower w) blocked_domains netloc
                 then 20 else 0)"
    by (simp add: quality_heuristic_def length_band_def)
qed

theorem content_quality_score_witness:
  "urlparse_netloc world_dup ''https://g1.globo.com/economia'' = Inr ''g1.globo.com''
   \<and> dict_get keyword_context ''keywords'' (PList []) = PList (map PStr [''Energy''])
   \<and> str_lower world_dup [] = []
   \<and> [] \<notin> set (map (str_lower world_dup) [''Energy''])
   \<and> calculate_content_quality world_dup ''energy drinks'' ''https://g1.globo.com/economia''
         (PDict keyword_context)
       = Inr (quality_heuristic (str_lower world_dup) ''energy drinks'' [''Energy''] ''g1.globo.com'')
   \<and> quality_heuristic (str_lower world_dup) ''energy drinks'' [''Energy''] ''g1.globo.com'' = 25
   \<and> calculate_content_quality world_dup [] ''https://g1.globo.com/economia'' (PDict keyword_context)
       = Inr (if in_domains (str_lower world_dup) preferred_domains ''g1.globo.com''
                 \<and> \<not> in_domains (str_lower world_dup) blocked_domains ''g1.globo.com''
              then 20 else 0)
   \<and> in_domains (str_lower world_dup) preferred_domains ''g1.globo.com''
   \<and> \<not> in_domains (str_lower world_dup) blocked_domains ''g1.globo.com''"
proof -
  have a: "urlparse_netloc world_dup ''https://g1.globo.com/economia'' = Inr ''g1.globo.com''"
    by (simp add: world_dup_def)
  have b: "dict_get keyword_context ''keywords'' (PList []) = PList (map PStr [''Energy''])"
    by (simp add: keyword_context_def dict_get_def)
  have l: "str_lower world_dup = lower_latin1" by (simp add: world_dup_def)
  have c: "str_lower world_dup [] = []" by (simp add: l lower_latin1_def)
  have d: "[] \<notin> set (map (str_lower world_dup) [''Energy''])"
    using lower_latin1_empty[of "''Energy''"] by (simp add: l)
  note t = content_quality_score[of world_dup "''https://g1.globo.com/economia''" "''g1.globo.com''"
      keyword_context "[''Energy'']"]
  have e: "calculate_content_quality world_dup ''energy drinks'' ''https://g1.globo.com/economia''
         (PDict keyword_context)
       = Inr (quality_heuristic (str_lower world_dup) ''energy drinks'' [''Energy''] ''g1.globo.com'')"
    using t[of "''energy drinks''", THEN conjunct1] a b by blast
  have f: "calculate_content_quality world_dup [] ''https://g1.globo.com/economia'' (PDict keyword_context)
       = Inr (if in_domains (str_lower world_dup) preferred_domains ''g1.globo.com''
                 \<and> \<not> in_domains (str_lower world_dup) blocked_domains ''g1.globo.com''
              then 20 else 0)"
    using t[of "[]", THEN conjunct2, THEN conjunct2] a b c d by blast
  have g: "quality_heuristic (str_lower world_dup) ''energy drinks'' [''Energy''] ''g1.globo.com'' = 25"
    unfolding l by code_simp
  have p: "in_domains (str_lower world_dup) preferred_domains ''g1.globo.com''"
    unfolding l by code_simp
  have q: "\<not> in_domains (str_lower world_dup) blocked_domains ''g1.globo.com''"
    unfolding l by code_simp
  show ?thesis using a b c d e f g p q by blast
qed

section \<open>Captures are not remembered\<close>

text \<open>
  C6, as the claim states it, fails: two requests for the same address and file, made
  one after the other, each start a browser, load the address and return a successful
  artifact.
\<close>

theorem capture_once_counterexample:
  "dict_get (fst first_capture) ''success'' PNone = PBool True
   \<and> dict_get (fst second_capture) ''success'' PNone = PBool True
   \<and> setup_calls (snd first_capture) = 1
   \<and> setup_calls (snd second_capture) = 2
   \<and> visited (snd second_capture) = [''https://social.example/p/1'', ''https://social.example/p/1'']"
  by code_simp

text \<open>
  C6, amended. \<^verbatim>\<open>capture_screenshot\<close> keeps no record of the addresses it has
  captured. Every request made while no driver is held, which is the case after the
  constructor and after every request, calls \<^verbatim>\<open>_setup_driver\<close> once more and leaves
  no driver behind; when the browser starts, the request loads the address again and
  quits the browser. When moreover the page loads and the screenshot is saved with a
  positive size, the request writes the file again, replacing what an earlier request
  wrote there, and returns a successful artifact again; when loading the page raises,
  the request writes nothing and returns a failure. So two requests for the same
  address make two capture attempts, and can return two successful artifacts.
\<close>

theorem capture_screenshot_repeats:
  "\<not> driver s \<longrightarrow>
     setup_calls (snd (capture_screenshot b s url output_path)) = setup_calls s + 1
     \<and> \<not> driver (snd (capture_screenshot b s url output_path))
     \<and> (setup_driver b = Inr () \<longrightarrow>
            visited (snd (capture_screenshot b s url output_path)) = visited s @ [url]
          \<and> quit_calls (snd (capture_screenshot b s url output_path)) = quit_calls s + 1)
     \<and> setup_calls (snd (capture_screenshot b' (snd (capture_screenshot b s url output_path))
                               url output_path)) = setup_calls s + 2
     \<and> (setup_driver b = Inr () \<and> setup_driver b' = Inr () \<longrightarrow>
            visited (snd (capture_screenshot b' (snd (capture_screenshot b s url output_path))
                            url output_path)) = visited s @ [url, url])
     \<and> (screenshot_saved b url output_path n \<longrightarrow>
            map_of (fst (capture_screenshot b s url output_path)) ''success'' = Some (PBool True)
          \<and> map_of (fst (capture_screenshot b s url output_path)) ''url'' = Some (PStr url)
          \<and> map_of (fst (capture_screenshot b s url output_path)) ''filepath''
              = Some (PStr output_path)
          \<and> map_of (fst (capture_screenshot b s url output_path)) ''filesize''
              = Some (PInt (int n))
          \<and> files (snd (capture_screenshot b s url output_path))
              = AList.update output_path n (files s))
     \<and> (screenshot_saved b url output_path n \<and> screenshot_saved b' url output_path n' \<longrightarrow>
            map_of (fst (capture_screenshot b' (snd (capture_screenshot b s url output_path))
                           url output_path)) ''success'' = Some (PBool True)
          \<and> map_of (fst (capture_screenshot b' (snd (capture_screenshot b s url output_path))
                           url output_path)) ''filesize'' = Some (PInt (int n'))
          \<and> files (snd (capture_screenshot b' (snd (capture_screenshot b s url output_path))
                           url output_path))
              = AList.update output_path n' (AList.update output_path n (files s))
          \<and> map_of (files (snd (capture_screenshot b' (snd (capture_screenshot b s url output_path))
                           url output_path))) output_path = Some n')
     \<and> (setup_driver b = Inr () \<and> page_get b url = Inl e \<longrightarrow>
            files (snd (capture_screenshot b s url output_path)) = files s
          \<and> map_of (fst (capture_screenshot b s url output_path)) ''success''
              = Some (PBool False))"
proof
  assume d: "\<not> driver s"
  let ?r1 = "capture_screenshot b s url output_path"
  let ?s1 = "snd ?r1"
  let ?r2 = "capture_screenshot b' ?s1 url output_path"
  let ?s2 = "snd ?r2"
  have d1: "\<not> driver ?s1" using d by (rule capture_screenshot_effects(2))
  have c1: "setup_calls ?s1 = setup_calls s + 1" using d by (rule capture_screenshot_effects(1))
  have c2: "setup_calls ?s2 = setup_calls ?s1 + 1" using d1 by (rule capture_screenshot_effects(1))
  have c: "setup_calls ?s2 = setup_calls s + 2" using c1 c2 by simp
  have v1: "setup_driver b = Inr () \<longrightarrow>
            visited ?s1 = visited s @ [url] \<and> quit_calls ?s1 = quit_calls s + 1"
    using capture_screenshot_effects(3)[OF d] by blast
  have v2: "setup_driver b' = Inr () \<longrightarrow> visited ?s2 = visited ?s1 @ [url]"
    using capture_screenshot_effects(3)[OF d1] by blast
  have v: "setup_driver b = Inr () \<and> setup_driver b' = Inr () \<longrightarrow>
            visited ?s2 = visited s @ [url, url]"
    using v1 v2 by simp
  have f1: "screenshot_saved b url output_path n \<longrightarrow>
            map_of (fst ?r1) ''success'' = Some (PBool True)
          \<and> map_of (fst ?r1) ''url'' = Some (PStr url)
          \<and> map_of (fst ?r1) ''filepath'' = Some (PStr output_path)
          \<and> map_of (fst ?r1) ''filesize'' = Some (PInt (int n))
          \<and> files ?s1 = AList.update output_path n (files s)"
    using capture_screenshot_saved[OF d] by blast
  have f2: "screenshot_saved b url output_path n \<and> screenshot_saved b' url output_path n' \<longrightarrow>
            map_of (fst ?r2) ''success'' = Some (PBool True)
          \<and> map_of (fst ?r2) ''filesize'' = Some (PInt (int n'))
          \<and> files ?s2 = AList.update output_path n' (AList.update output_path n (files s))
          \<and> map_of (files ?s2) output_path = Some n'"
  proof
    assume h: "screenshot_saved b url output_path n \<and> screenshot_saved b' url output_path n'"
    then have a: "files ?s1 = AList.update output_path n (files s)" using f1 by blast
    have b1: "map_of (fst ?r2) ''success'' = Some (PBool True)"
      and b2: "map_of (fst ?r2) ''filesize'' = Some (PInt (int n'))"
      and b3: "files ?s2 = AList.update output_path n' (files ?s1)"
      using capture_screenshot_saved[OF d1, of b' url output_path n'] h by blast+
    have b4: "map_of (files ?s2) output_path = Some n'" by (simp add: b3 update_conv')
    show "map_of (fst ?r2) ''success'' = Some (PBool True)
          \<and> map_of (fst ?r2) ''filesize'' = Some (PInt (int n'))
          \<and> files ?s2 = AList.update output_path n' (AList.update output_path n (files s))
          \<and> map_of (files ?s2) output_path = Some n'"
      using a b1 b2 b3 b4 by simp
  qed
  have g: "setup_driver b = Inr () \<and> page_get b url = Inl e \<longrightarrow>
            files ?s1 = files s \<and> map_of (fst ?r1) ''success'' = Some (PBool False)"
    using capture_screenshot_page_fails[OF d] by blast
  show "setup_calls ?s1 = setup_calls s + 1
     \<and> \<not> driver ?s1
     \<and> (setup_driver b = Inr () \<longrightarrow>
            visited ?s1 = visited s @ [url] \<and> quit_calls ?s1 = quit_calls s + 1)
     \<and> setup_calls ?s2 = setup_calls s + 2
     \<and> (setup_driver b = Inr () \<and> setup_driver b' = Inr () \<longrightarrow>
            visited ?s2 = visited s @ [url, url])
     \<and> (screenshot_saved b url output_path n \<longrightarrow>
            map_of (fst ?r1) ''success'' = Some (PBool True)
          \<and> map_of (fst ?r1) ''url'' = Some (PStr url)
          \<and> map_of (fst ?r1) ''filepath'' = Some (PStr output_path)
          \<and> map_of (fst ?r1) ''filesize'' = Some (PInt (int n))
          \<and> files ?s1 = AList.update output_path n (files s))
     \<and> (screenshot_saved b url output_path n \<and> screenshot_saved b' url output_path n' \<longrightarrow>
            map_of (fst ?r2) ''success'' = Some (PBool True)
          \<and> map_of (fst ?r2) ''filesize'' = Some (PInt (int n'))
          \<and> files ?s2 = AList.update output_path n' (AList.update output_path n (files s))
          \<and> map_of (files ?s2) output_path = Some n')
     \<and> (setup_driver b = Inr () \<and> page_get b url = Inl e \<longrightarrow>
            files ?s1 = files s \<and> map_of (fst ?r1) ''success'' = Some (PBool False))"
    using d1 c1 c v1 v f1 f2 g by (intro conjI) assumption+
qed

theorem capture_screenshot_repeats_witness:
  "\<not> driver new_capturer
   \<and> setup_driver browser_ok = Inr ()
   \<and> screenshot_saved browser_ok ''https://social.example/p/1'' ''p1.png'' 2048
   \<and> setup_calls (snd (capture_screenshot browser_ok
          (snd (capture_screenshot browser_ok new_capturer ''https://social.example/p/1'' ''p1.png''))
          ''https://social.example/p/1'' ''p1.png'')) = setup_calls new_capturer + 2
   \<and> visited (snd (capture_screenshot browser_ok
          (snd (capture_screenshot browser_ok new_capturer ''https://social.example/p/1'' ''p1.png''))
          ''https://social.example/p/1'' ''p1.png''))
       = visited new_capturer @ [''https://social.example/p/1'', ''https://social.example/p/1'']
   \<and> map_of (fst (capture_screenshot browser_ok
          (snd (capture_screenshot browser_ok new_capturer ''https://social.example/p/1'' ''p1.png''))
          ''https://social.example/p/1'' ''p1.png'')) ''success'' = Some (PBool True)
   \<and> map_of (files (snd (capture_screenshot browser_ok
          (snd (capture_screenshot browser_ok new_capturer ''https://social.example/p/1'' ''p1.png''))
          ''https://social.example/p/1'' ''p1.png''))) ''p1.png'' = Some 2048
   \<and> setup_driver browser_offline = Inr ()
   \<and> page_get browser_offline ''https://social.example/p/1''
       = Inl (Exn OtherException ''net::ERR_NAME_NOT_RESOLVED'')
   \<and> files (snd (capture_screenshot browser_offline new_capturer
          ''https://social.example/p/1'' ''p1.png'')) = files new_capturer
   \<and> map_of (fst (capture_screenshot browser_offline new_capturer
          ''https://social.example/p/1'' ''p1.png'')) ''success'' = Some (PBool False)"
proof -
  have a: "\<not> driver new_capturer" by (simp add: new_capturer_def)
  have b: "setup_driver browser_ok = Inr ()"
    by (simp add: setup_driver_def browser_ok_def py_subscript_def)
  have c: "screenshot_saved browser_ok ''https://social.example/p/1'' ''p1.png'' 2048"
    using b by (simp add: screenshot_saved_def) (simp add: browser_ok_def)
  have d: "setup_driver browser_offline = Inr ()"
    by (simp add: setup_driver_def browser_offline_def browser_ok_def py_subscript_def)
  have e: "page_get browser_offline ''https://social.example/p/1''
       = Inl (Exn OtherException ''net::ERR_NAME_NOT_RESOLVED'')"
    by (simp add: browser_offline_def)
  have ok: "setup_calls (snd (capture_screenshot browser_ok
          (snd (capture_screenshot browser_ok new_capturer ''https://social.example/p/1'' ''p1.png''))
          ''https://social.example/p/1'' ''p1.png'')) = setup_calls new_capturer + 2
   \<and> visited (snd (capture_screenshot browser_ok
          (snd (capture_screenshot browser_ok new_capturer ''https://social.example/p/1'' ''p1.png''))
          ''https://social.example/p/1'' ''p1.png''))
       = visited new_capturer @ [''https://social.example/p/1'', ''https://social.example/p/1'']
   \<and> map_of (fst (capture_screenshot browser_ok
          (snd (capture_screenshot browser_ok new_capturer ''https://social.example/p/1'' ''p1.png''))
          ''https://social.example/p/1'' ''p1.png'')) ''success'' = Some (PBool True)
   \<and> map_of (files (snd (capture_screenshot browser_ok
          (snd (capture_screenshot browser_ok new_capturer ''https://social.example/p/1'' ''p1.png''))
          ''https://social.example/p/1'' ''p1.png''))) ''p1.png'' = Some 2048"
    using capture_screenshot_repeats[of new_capturer browser_ok "''https://social.example/p/1''"
        "''p1.png''" browser_ok 2048 2048] a b c
    by blast
  have off: "files (snd (capture_screenshot browser_offline new_capturer
          ''https://social.example/p/1'' ''p1.png'')) = files new_capturer
   \<and> map_of (fst (capture_screenshot browser_offline new_capturer
          ''https://social.example/p/1'' ''p1.png'')) ''success'' = Some (PBool False)"
    using capture_screenshot_repeats[of new_capturer browser_offline
        "''https://social.example/p/1''" "''p1.png''" browser_ok 0 0
        "Exn OtherException ''net::ERR_NAME_NOT_RESOLVED''"] a d e
    by blast
  show ?thesis using a b c d e ok off by (intro conjI) (elim conjE, assumption)+
qed

section \<open>A failed collection persists no document\<close>




end
